theory Spec2Isabelle
  imports Complex_Main "HOL-Library.Sublist"
begin

section \<open>JavaScript primitives used by the service\<close>

text \<open>
  Strings are character lists. \<open>s.startsWith(p)\<close> is \<open>prefix p s\<close>; \<open>s.includes(k)\<close> is
  the search for a contiguous occurrence of \<open>k\<close>; \<open>s.toLowerCase()\<close> is modelled on the
  ASCII letters (characters outside \<open>A\<close>..\<open>Z\<close> are left as they are).
  JavaScript numbers are modelled as rationals with exact arithmetic.
\<close>

definition startsWith :: "string \<Rightarrow> string \<Rightarrow> bool" where
  "startsWith s p = prefix p s"

fun str_includes :: "string \<Rightarrow> string \<Rightarrow> bool" where
  "str_includes [] k = (k = [])"
| "str_includes (c # cs) k = (prefix k (c # cs) \<or> str_includes cs k)"

definition lowerChar :: "char \<Rightarrow> char" where
  "lowerChar c =
     (let n = (of_char c :: nat) in if 65 \<le> n \<and> n \<le> 90 then char_of (n + 32) else c)"

definition toLowerCase :: "string \<Rightarrow> string" where
  "toLowerCase s = map lowerChar s"

text \<open>\<open>Math.round(x)\<close>: the nearest integer, a half rounded up.\<close>

definition js_round :: "rat \<Rightarrow> int" where
  "js_round x = \<lfloor>x + 1 / 2\<rfloor>"

text \<open>
  A value read from a JavaScript object that is a string when present: \<open>None\<close> is
  \<open>undefined\<close>. Such a value is truthy when it is a non-empty string, and \<open>a || b\<close>
  is \<open>a\<close> when \<open>a\<close> is truthy and \<open>b\<close> otherwise.
\<close>

definition truthy_str :: "string option \<Rightarrow> bool" where
  "truthy_str v = (case v of None \<Rightarrow> False | Some s \<Rightarrow> s \<noteq> [])"

definition or_else :: "string option \<Rightarrow> string option \<Rightarrow> string option" where
  "or_else a b = (if truthy_str a then a else b)"

text \<open>\<open>v || d\<close> with a string default.\<close>

definition str_or :: "string option \<Rightarrow> string \<Rightarrow> string" where
  "str_or v d = (case v of None \<Rightarrow> d | Some s \<Rightarrow> if s \<noteq> [] then s else d)"



section \<open>URL normalisation\<close>

text \<open>
  The first statement of every service handler
  (\<open>runLighthouseAnalysis\<close>, \<open>analyzeTechStack\<close>, \<open>analyzeSecurityHeaders\<close>,
  \<open>analyzeMobileFriendly\<close>, \<open>analyzeCoreWebVitals\<close>):
  \<^verbatim>\<open>if (!url.startsWith('http://') && !url.startsWith('https://')) { url = 'https://' + url; }\<close>
\<close>

definition normalizeUrl :: "string \<Rightarrow> string" where
  "normalizeUrl url =
     (if \<not> startsWith url ''http://'' \<and> \<not> startsWith url ''https://''
      then ''https://'' @ url else url)"

text \<open>
  The controller's \<open>testWebsite\<close> computes its own target:
  \<^verbatim>\<open>const urlToTest = url.startsWith('http') ? url : `https://${url}`;\<close>
\<close>

definition urlToTest :: "string \<Rightarrow> string" where
  "urlToTest url = (if startsWith url ''http'' then url else ''https://'' @ url)"



section \<open>Security headers analysis\<close>

text \<open>
  \<open>res.headers\<close> of Node's HTTP client: a dictionary from header names to header values.
\<close>

type_synonym headers = "string \<rightharpoonup> string"

record header_check =
  present :: bool
  hvalue :: "string option"
  status :: string
  description :: string
  recommendation :: string

record https_check =
  enabled :: bool
  https_status :: string
  https_description :: string

record headers_summary =
  totalHeaders :: nat
  securityScore :: int
  overallStatus :: string
  recommendations :: "string list"

record security_analysis =
  https :: https_check
  hsts :: header_check
  csp :: header_check
  xFrameOptions :: header_check
  xContentTypeOptions :: header_check
  referrerPolicy :: header_check
  permissionsPolicy :: header_check
  summary :: headers_summary

text \<open>The initial \<open>analysis\<close> object of \<open>analyzeSecurityHeadersData\<close>.\<close>

definition initialAnalysis :: "bool \<Rightarrow> security_analysis" where
  "initialAnalysis isHttps =
     \<lparr> https = \<lparr> enabled = isHttps,
                 https_status = (if isHttps then ''Secure'' else ''Insecure''),
                 https_description = (if isHttps then ''Website uses HTTPS encryption''
                                      else ''Website uses unencrypted HTTP'') \<rparr>,
       hsts = \<lparr> present = False, hvalue = None, status = ''Missing'',
                description = ''Strict-Transport-Security header not found'',
                recommendation = ''Add HSTS header to prevent downgrade attacks'' \<rparr>,
       csp = \<lparr> present = False, hvalue = None, status = ''Missing'',
               description = ''Content-Security-Policy header not found'',
               recommendation = ''Add CSP header to prevent XSS attacks'' \<rparr>,
       xFrameOptions = \<lparr> present = False, hvalue = None, status = ''Missing'',
               description = ''X-Frame-Options header not found'',
               recommendation = ''Add X-Frame-Options to prevent clickjacking'' \<rparr>,
       xContentTypeOptions = \<lparr> present = False, hvalue = None, status = ''Missing'',
               description = ''X-Content-Type-Options header not found'',
               recommendation = ''Add X-Content-Type-Options to prevent MIME sniffing'' \<rparr>,
       referrerPolicy = \<lparr> present = False, hvalue = None, status = ''Missing'',
               description = ''Referrer-Policy header not found'',
               recommendation = ''Add Referrer-Policy to protect sensitive referral data'' \<rparr>,
       permissionsPolicy = \<lparr> present = False, hvalue = None, status = ''Missing'',
               description = ''Permissions-Policy header not found'',
               recommendation = ''Add Permissions-Policy to restrict feature access'' \<rparr>,
       summary = \<lparr> totalHeaders = 0, securityScore = 0, overallStatus = ''Poor'',
                   recommendations = [] \<rparr> \<rparr>"

text \<open>
  One of the six \<open>if (headers[lower] || headers[canonical]) { ... }\<close> blocks: when the
  test succeeds the five fields of the entry are overwritten.
\<close>

definition checkHeader ::
  "headers \<Rightarrow> string \<Rightarrow> string \<Rightarrow> string \<Rightarrow> string \<Rightarrow> header_check \<Rightarrow> header_check" where
  "checkHeader headers lower canonical d r entry =
     (if truthy_str (or_else (headers lower) (headers canonical))
      then \<lparr> present = True, hvalue = or_else (headers lower) (headers canonical),
             status = ''Present'', description = d, recommendation = r \<rparr>
      else entry)"

definition overallStatusOf :: "int \<Rightarrow> string" where
  "overallStatusOf score =
     (if score \<ge> 80 then ''Excellent''
      else if score \<ge> 60 then ''Good''
      else if score \<ge> 40 then ''Fair''
      else if score \<ge> 20 then ''Poor''
      else ''Very Poor'')"

text \<open>
  The six header checks of \<open>analyzeSecurityHeadersData\<close>, in the order of the source.
  Each block reads and overwrites its own entry of \<open>analysis\<close> only.
\<close>

definition checkedAnalysis :: "headers \<Rightarrow> bool \<Rightarrow> security_analysis" where
  "checkedAnalysis headers isHttps =
     (let a0 = initialAnalysis isHttps in
      a0\<lparr> hsts := checkHeader headers
               ''strict-transport-security'' ''Strict-Transport-Security''
               ''HSTS header is configured'' ''HSTS is properly configured'' (hsts a0),
          csp := checkHeader headers
               ''content-security-policy'' ''Content-Security-Policy''
               ''CSP header is configured'' ''CSP is properly configured'' (csp a0),
          xFrameOptions := checkHeader headers
               ''x-frame-options'' ''X-Frame-Options''
               ''X-Frame-Options header is configured''
               ''X-Frame-Options is properly configured'' (xFrameOptions a0),
          xContentTypeOptions := checkHeader headers
               ''x-content-type-options'' ''X-Content-Type-Options''
               ''X-Content-Type-Options header is configured''
               ''X-Content-Type-Options is properly configured'' (xContentTypeOptions a0),
          referrerPolicy := checkHeader headers
               ''referrer-policy'' ''Referrer-Policy''
               ''Referrer-Policy header is configured''
               ''Referrer-Policy is properly configured'' (referrerPolicy a0),
          permissionsPolicy := checkHeader headers
               ''permissions-policy'' ''Permissions-Policy''
               ''Permissions-Policy header is configured''
               ''Permissions-Policy is properly configured'' (permissionsPolicy a0) \<rparr>)"

text \<open>
  The rest of the function ("Calculate summary", "Determine overall status",
  "Generate recommendations"): the summary is computed from the six entries.
\<close>

definition presentHeaders :: "security_analysis \<Rightarrow> nat" where
  "presentHeaders a = length (filter (\<lambda>b. b)
     [present (hsts a), present (csp a), present (xFrameOptions a),
      present (xContentTypeOptions a), present (referrerPolicy a),
      present (permissionsPolicy a)])"

definition generateRecommendations :: "security_analysis \<Rightarrow> string list" where
  "generateRecommendations a =
       (if \<not> present (hsts a) then [recommendation (hsts a)] else [])
     @ (if \<not> present (csp a) then [recommendation (csp a)] else [])
     @ (if \<not> present (xFrameOptions a) then [recommendation (xFrameOptions a)] else [])
     @ (if \<not> present (xContentTypeOptions a) then [recommendation (xContentTypeOptions a)] else [])
     @ (if \<not> present (referrerPolicy a) then [recommendation (referrerPolicy a)] else [])
     @ (if \<not> present (permissionsPolicy a) then [recommendation (permissionsPolicy a)] else [])"

definition analyzeSecurityHeadersData :: "headers \<Rightarrow> bool \<Rightarrow> security_analysis" where
  "analyzeSecurityHeadersData headers isHttps =
     (let a = checkedAnalysis headers isHttps;
          score = js_round ((of_nat (presentHeaders a) / 6) * 100)
      in a\<lparr> summary := \<lparr> totalHeaders = presentHeaders a, securityScore = score,
                           overallStatus = overallStatusOf score,
                           recommendations = generateRecommendations a \<rparr> \<rparr>)"

text \<open>
  The six tracked headers: the lower-case name, the canonical name, and the
  recommendation issued when the header is missing.
\<close>

definition trackedHeaders :: "(string \<times> string \<times> string) list" where
  "trackedHeaders =
     [(''strict-transport-security'', ''Strict-Transport-Security'',
         ''Add HSTS header to prevent downgrade attacks''),
      (''content-security-policy'', ''Content-Security-Policy'',
         ''Add CSP header to prevent XSS attacks''),
      (''x-frame-options'', ''X-Frame-Options'',
         ''Add X-Frame-Options to prevent clickjacking''),
      (''x-content-type-options'', ''X-Content-Type-Options'',
         ''Add X-Content-Type-Options to prevent MIME sniffing''),
      (''referrer-policy'', ''Referrer-Policy'',
         ''Add Referrer-Policy to protect sensitive referral data''),
      (''permissions-policy'', ''Permissions-Policy'',
         ''Add Permissions-Policy to restrict feature access'')]"

text \<open>A tracked header is in the map when one of its two names is a key of the map.\<close>

definition inMap :: "headers \<Rightarrow> string \<times> string \<times> string \<Rightarrow> bool" where
  "inMap headers h = (headers (fst h) \<noteq> None \<or> headers (fst (snd h)) \<noteq> None)"

text \<open>It is set when one of its two names carries a non-empty value.\<close>

definition isSet :: "headers \<Rightarrow> string \<times> string \<times> string \<Rightarrow> bool" where
  "isSet headers h = (truthy_str (headers (fst h)) \<or> truthy_str (headers (fst (snd h))))"


text \<open>
  A response whose \<open>Referrer-Policy\<close> header is sent with the empty value and whose
  \<open>X-Frame-Options\<close> header is \<open>DENY\<close>.
\<close>

definition exampleHeaders :: headers where
  "exampleHeaders = [''x-frame-options'' \<mapsto> ''DENY'', ''referrer-policy'' \<mapsto> '''']"


section \<open>The outside world\<close>

text \<open>
  The handlers call external collaborators. Their answers are parameters of the model
  (a \<open>world\<close>), and every handler returns, next to its result, the list of the
  external invocations it made, in order.

  An HTTP GET of Node's client (\<open>client.get(url, callback)\<close> with an \<open>error\<close>
  listener and a socket timeout) ends in one of these ways: the response arrives, the
  request emits \<open>error\<close>, the 10 second timer set with \<open>setTimeout\<close> fires, the
  socket timeout set with \<open>req.setTimeout\<close> fires, or \<open>client.get\<close> itself throws
  (for instance on a string that is not a URL).
\<close>

record response =
  statusCode :: nat
  resHeaders :: headers
  resBody :: string

datatype http_outcome =
    Responded response
  | ErrorEvent string
  | TimerFired
  | SocketTimeout
  | GetThrew string

text \<open>A promise that has settled: \<open>Inl message\<close> is a rejection with \<open>new Error(message)\<close>.\<close>

type_synonym 'a promise = "string + 'a"

text \<open>
  The two request bodies \<open>runCoreWebVitalsAnalysis\<close> posts to the CrUX API:
  \<open>{ url: origin, formFactor: 'ALL_FORM_FACTORS' }\<close> and
  \<open>{ origin: origin, formFactor: 'ALL_FORM_FACTORS' }\<close>.
\<close>

datatype crux_query = ByUrl string | ByOrigin string

text \<open>
  The external invocations: a command given to \<open>child_process.exec\<close>, a GET of Node's
  HTTP client, a POST to the CrUX API (\<open>ApiPost apiUrl query\<close>), a POST to the
  Mobile-Friendly Test API with the body \<open>{ url, requestScreenshot: true }\<close>
  (\<open>MobileApiPost apiUrl url\<close>), and the calls of the fingerprinting library.
\<close>

datatype ext_call =
    Exec string
  | HttpGet string
  | ApiPost string crux_query
  | MobileApiPost string string
  | WappalyzerInit
  | WappalyzerOpen string
  | WappalyzerAnalyze
  | WappalyzerDestroy


section \<open>Mobile-friendly heuristic\<close>

text \<open>
  The two regular expressions of \<open>analyzeMobileFriendlyWithoutApi\<close>, matched anywhere
  in the page: \<^verbatim>\<open>/font-size:\s*(1[0-5]px|[0-9]px)/\<close> and \<^verbatim>\<open>/padding:\s*0(px)?/\<close>.
  \<open>\s\<close> is modelled on the one-byte white space characters.
\<close>

fun anywhere :: "(string \<Rightarrow> bool) \<Rightarrow> string \<Rightarrow> bool" where
  "anywhere P [] = P []"
| "anywhere P (c # cs) = (P (c # cs) \<or> anywhere P cs)"

definition isSpace :: "char \<Rightarrow> bool" where
  "isSpace c = (let n = (of_char c :: nat) in (9 \<le> n \<and> n \<le> 13) \<or> n = 32 \<or> n = 160)"

definition isDigit :: "char \<Rightarrow> bool" where
  "isDigit c = (let n = (of_char c :: nat) in 48 \<le> n \<and> n \<le> 57)"

definition afterPrefix :: "string \<Rightarrow> string \<Rightarrow> string option" where
  "afterPrefix p s = (if prefix p s then Some (drop (length p) s) else None)"

definition smallPx :: "string \<Rightarrow> bool" where
  "smallPx r =
     ((case take 4 r of
         [a, b, c, d] \<Rightarrow> a = CHR ''1'' \<and> 48 \<le> (of_char b :: nat) \<and> (of_char b :: nat) \<le> 53
                          \<and> c = CHR ''p'' \<and> d = CHR ''x''
       | _ \<Rightarrow> False)
      \<or> (case take 3 r of
         [a, b, c] \<Rightarrow> isDigit a \<and> b = CHR ''p'' \<and> c = CHR ''x''
       | _ \<Rightarrow> False))"

definition matchFontSize :: "string \<Rightarrow> bool" where
  "matchFontSize html =
     anywhere (\<lambda>s. case afterPrefix ''font-size:'' s of
                      None \<Rightarrow> False
                    | Some r \<Rightarrow> smallPx (dropWhile isSpace r)) html"

definition matchPaddingZero :: "string \<Rightarrow> bool" where
  "matchPaddingZero html =
     anywhere (\<lambda>s. case afterPrefix ''padding:'' s of
                      None \<Rightarrow> False
                    | Some r \<Rightarrow> prefix ''0'' (dropWhile isSpace r)) html"

record mobile_details =
  viewport :: bool
  textSize :: bool
  clickableElements :: bool
  contentWidth :: bool
  plugins :: bool
  responsiveDesign :: bool
  loadingSpeed :: bool

record mobile_analysis =
  verdict :: string
  issues :: "string list"
  mfScreenshots :: "string list"
  details :: mobile_details
  mfRecommendations :: "string list"

text \<open>The initial \<open>analysis\<close> object.\<close>

definition initialMobileAnalysis :: mobile_analysis where
  "initialMobileAnalysis =
     \<lparr> verdict = ''MOBILE_FRIENDLY'', issues = [], mfScreenshots = [],
       details = \<lparr> viewport = False, textSize = False, clickableElements = False,
                   contentWidth = False, plugins = False, responsiveDesign = False,
                   loadingSpeed = False \<rparr>,
       mfRecommendations = [] \<rparr>"

text \<open>The six checks on the lower-cased page, each one statement of the source.\<close>

definition checkViewport :: "string \<Rightarrow> mobile_analysis \<Rightarrow> mobile_analysis" where
  "checkViewport html a =
     (if \<not> str_includes html ''<meta'' \<or> \<not> str_includes html ''name=\"viewport\"''
         \<or> \<not> str_includes html ''width=device-width''
      then a\<lparr> issues := issues a @ [''Viewport not set''],
              details := (details a)\<lparr> viewport := True \<rparr> \<rparr>
      else a)"

definition checkResponsive :: "string \<Rightarrow> mobile_analysis \<Rightarrow> mobile_analysis" where
  "checkResponsive html a =
     (let hasResponsiveCSS = (str_includes html ''@media'' \<or> str_includes html ''max-width''
                               \<or> str_includes html ''min-width'')
      in if \<not> hasResponsiveCSS
         then a\<lparr> issues := issues a @ [''No responsive design detected''],
                 details := (details a)\<lparr> responsiveDesign := True \<rparr> \<rparr>
         else a)"

definition checkContentWidth :: "string \<Rightarrow> mobile_analysis \<Rightarrow> mobile_analysis" where
  "checkContentWidth html a =
     (if str_includes html ''width='' \<and> str_includes html ''px''
      then a\<lparr> issues := issues a @ [''Content wider than screen''],
              details := (details a)\<lparr> contentWidth := True \<rparr> \<rparr>
      else a)"

definition checkTextSize :: "string \<Rightarrow> mobile_analysis \<Rightarrow> mobile_analysis" where
  "checkTextSize html a =
     (if str_includes html ''font-size:'' \<and> matchFontSize html
      then a\<lparr> issues := issues a @ [''Text too small to read''],
              details := (details a)\<lparr> textSize := True \<rparr> \<rparr>
      else a)"

definition checkTapTargets :: "string \<Rightarrow> mobile_analysis \<Rightarrow> mobile_analysis" where
  "checkTapTargets html a =
     (if str_includes html ''padding:'' \<and> matchPaddingZero html
      then a\<lparr> issues := issues a @ [''Clickable elements too close''],
              details := (details a)\<lparr> clickableElements := True \<rparr> \<rparr>
      else a)"

definition checkPlugins :: "string \<Rightarrow> mobile_analysis \<Rightarrow> mobile_analysis" where
  "checkPlugins html a =
     (if str_includes html ''<object'' \<or> str_includes html ''.swf'' \<or> str_includes html ''flash''
      then a\<lparr> issues := issues a @ [''Incompatible plugins detected''],
              details := (details a)\<lparr> plugins := True \<rparr> \<rparr>
      else a)"

text \<open>\<^verbatim>\<open>if (analysis.issues.length > 0) { analysis.verdict = 'NOT_MOBILE_FRIENDLY'; }\<close>\<close>

definition setVerdict :: "mobile_analysis \<Rightarrow> mobile_analysis" where
  "setVerdict a = (if length (issues a) > 0 then a\<lparr> verdict := ''NOT_MOBILE_FRIENDLY'' \<rparr> else a)"

definition addRecommendations :: "mobile_analysis \<Rightarrow> mobile_analysis" where
  "addRecommendations a =
     a\<lparr> mfRecommendations := mfRecommendations a
        @ (if viewport (details a)
           then [''Add viewport meta tag: <meta name=\"viewport\" content=\"width=device-width, initial-scale=1.0\">'']
           else [])
        @ (if responsiveDesign (details a)
           then [''Implement responsive design using CSS media queries''] else [])
        @ (if contentWidth (details a)
           then [''Use flexible layouts with percentage-based widths''] else [])
        @ (if textSize (details a)
           then [''Use larger font sizes (minimum 16px) for mobile readability''] else [])
        @ (if clickableElements (details a)
           then [''Ensure clickable elements have adequate spacing (minimum 44px)''] else [])
        @ (if plugins (details a)
           then [''Remove or replace Flash and other incompatible plugins''] else []) \<rparr>"

text \<open>
  The body of the \<open>try\<close> block once the page is there:
  \<open>html = (pageData.html || '').toLowerCase()\<close>, the checks, the verdict, the
  recommendations.
\<close>

definition sniffPage :: "string \<Rightarrow> mobile_analysis" where
  "sniffPage pageHtml =
     (let html = toLowerCase pageHtml in
      addRecommendations (setVerdict (checkPlugins html (checkTapTargets html
        (checkTextSize html (checkContentWidth html (checkResponsive html
          (checkViewport html initialMobileAnalysis))))))))"

text \<open>
  \<open>getPageData\<close>: the promise resolves with the page when the response has ended and
  rejects on every other outcome. A throw of \<open>client.get\<close> inside the promise executor
  rejects the promise.
\<close>

record page_data =
  html :: string
  pageHeaders :: headers
  pageStatus :: nat

definition getPageData :: "(string \<Rightarrow> http_outcome) \<Rightarrow> string \<Rightarrow> page_data promise" where
  "getPageData httpGet url =
     (case httpGet url of
        Responded res \<Rightarrow>
          Inr \<lparr> html = resBody res, pageHeaders = resHeaders res, pageStatus = statusCode res \<rparr>
      | ErrorEvent m \<Rightarrow> Inl m
      | TimerFired \<Rightarrow> Inl ''Request timeout after 10 seconds''
      | SocketTimeout \<Rightarrow> Inl ''Request timeout''
      | GetThrew m \<Rightarrow> Inl m)"

text \<open>
  \<open>analyzeMobileFriendlyWithoutApi\<close>: any failure inside the \<open>try\<close> block is rethrown as
  \<open>'Unable to analyze page content'\<close>. The only external invocation is the page fetch.
\<close>

definition analyzeMobileFriendlyWithoutApi ::
  "(string \<Rightarrow> http_outcome) \<Rightarrow> string \<Rightarrow> mobile_analysis promise \<times> ext_call list" where
  "analyzeMobileFriendlyWithoutApi httpGet url =
     (case getPageData httpGet url of
        Inl e \<Rightarrow> (Inl ''Unable to analyze page content'', [HttpGet url])
      | Inr pageData \<Rightarrow> (Inr (sniffPage (html pageData)), [HttpGet url]))"

text \<open>A small page with a viewport tag and a media query, and one without either.\<close>

definition friendlyPage :: string where
  "friendlyPage = ''<META name=\"viewport\" content=\"width=device-width\"><style>@media screen{}</style>''"

definition plainPage :: string where
  "plainPage = ''<p style=\"font-size: 9px\">hello</p>''"


section \<open>Technology categorisation\<close>

text \<open>
  A technology as the fingerprinting library reports it, and the \<open>techInfo\<close> object
  \<open>categorizeTechnologies\<close> builds from it (\<open>tech.version || 'Unknown'\<close>,
  \<open>tech.confidence || 0\<close>, \<open>tech.category || 'Unknown'\<close>, \<open>tech.description || ''\<close>).
\<close>

record tech_raw =
  rawName :: string
  rawVersion :: "string option"
  rawConfidence :: "nat option"
  rawCategory :: "string option"
  rawDescription :: "string option"

record tech_info =
  techName :: string
  techVersion :: string
  techConfidence :: nat
  techCategory :: string
  techDescription :: string

definition techInfoOf :: "tech_raw \<Rightarrow> tech_info" where
  "techInfoOf tech =
     \<lparr> techName = rawName tech,
       techVersion = str_or (rawVersion tech) ''Unknown'',
       techConfidence = (case rawConfidence tech of None \<Rightarrow> 0 | Some c \<Rightarrow> c),
       techCategory = str_or (rawCategory tech) ''Unknown'',
       techDescription = str_or (rawDescription tech) '''' \<rparr>"

record tech_stack =
  frontend :: "tech_info list"
  backend :: "tech_info list"
  databases :: "tech_info list"
  programmingLanguages :: "tech_info list"
  frameworks :: "tech_info list"
  libraries :: "tech_info list"

record devops_groups =
  webServers :: "tech_info list"
  cdn :: "tech_info list"
  hosting :: "tech_info list"
  cloudServices :: "tech_info list"

record competitor_groups =
  paymentProcessors :: "tech_info list"
  advertisingNetworks :: "tech_info list"
  abTesting :: "tech_info list"

record categories =
  techStack :: tech_stack
  cms :: "tech_info list"
  ecommerce :: "tech_info list"
  analytics :: "tech_info list"
  devops :: devops_groups
  security :: "tech_info list"
  competitor :: competitor_groups

definition emptyCategories :: categories where
  "emptyCategories =
     \<lparr> techStack = \<lparr> frontend = [], backend = [], databases = [], programmingLanguages = [],
                     frameworks = [], libraries = [] \<rparr>,
       cms = [], ecommerce = [], analytics = [],
       devops = \<lparr> webServers = [], cdn = [], hosting = [], cloudServices = [] \<rparr>,
       security = [],
       competitor = \<lparr> paymentProcessors = [], advertisingNetworks = [], abTesting = [] \<rparr> \<rparr>"

text \<open>
  The seventeen keyword tables and their predicates
  (\<open>keywords.some(keyword => name.includes(keyword) || category.includes(keyword))\<close>).
\<close>

definition frontendKeywords :: "string list" where
  "frontendKeywords =
     [''react'', ''vue'', ''angular'', ''jquery'', ''bootstrap'', ''tailwind'', ''sass'',
      ''less'', ''webpack'', ''vite'', ''parcel'', ''gulp'', ''grunt'', ''typescript'',
      ''javascript'', ''html5'', ''css3'', ''pwa'', ''service worker'', ''web components'']"

definition isFrontendTech :: "string \<Rightarrow> string \<Rightarrow> bool" where
  "isFrontendTech name category =
     list_ex (\<lambda>keyword. str_includes name keyword \<or> str_includes category keyword) frontendKeywords"

definition backendKeywords :: "string list" where
  "backendKeywords =
     [''node.js'', ''express'', ''django'', ''flask'', ''laravel'', ''spring'',
      ''asp.net'', ''php'', ''python'', ''java'', ''c#'', ''ruby'', ''rails'', ''fastapi'',
      ''koa'', ''hapi'', ''sails'', ''meteor'', ''strapi'', ''ghost'']"

definition isBackendTech :: "string \<Rightarrow> string \<Rightarrow> bool" where
  "isBackendTech name category =
     list_ex (\<lambda>keyword. str_includes name keyword \<or> str_includes category keyword) backendKeywords"

definition databaseKeywords :: "string list" where
  "databaseKeywords =
     [''mysql'', ''postgresql'', ''mongodb'', ''redis'', ''sqlite'', ''mariadb'',
      ''oracle'', ''sql server'', ''dynamodb'', ''firebase'', ''supabase'']"

definition isDatabase :: "string \<Rightarrow> string \<Rightarrow> bool" where
  "isDatabase name category =
     list_ex (\<lambda>keyword. str_includes name keyword \<or> str_includes category keyword) databaseKeywords"

definition languageKeywords :: "string list" where
  "languageKeywords =
     [''javascript'', ''typescript'', ''python'', ''php'', ''java'', ''c#'', ''ruby'',
      ''go'', ''rust'', ''swift'', ''kotlin'', ''scala'', ''elixir'', ''clojure'']"

definition isProgrammingLanguage :: "string \<Rightarrow> string \<Rightarrow> bool" where
  "isProgrammingLanguage name category =
     list_ex (\<lambda>keyword. str_includes name keyword \<or> str_includes category keyword) languageKeywords"

definition frameworkKeywords :: "string list" where
  "frameworkKeywords =
     [''react'', ''vue'', ''angular'', ''svelte'', ''next.js'', ''nuxt'', ''gatsby'',
      ''django'', ''flask'', ''express'', ''laravel'', ''spring'', ''asp.net'', ''rails'',
      ''fastapi'', ''koa'', ''hapi'', ''sails'']"

definition isFramework :: "string \<Rightarrow> string \<Rightarrow> bool" where
  "isFramework name category =
     list_ex (\<lambda>keyword. str_includes name keyword \<or> str_includes category keyword) frameworkKeywords"

definition libraryKeywords :: "string list" where
  "libraryKeywords =
     [''jquery'', ''lodash'', ''moment'', ''axios'', ''fetch'', ''socket.io'',
      ''three.js'', ''d3'', ''chart.js'', ''fabric'', ''konva'']"

definition isLibrary :: "string \<Rightarrow> string \<Rightarrow> bool" where
  "isLibrary name category =
     list_ex (\<lambda>keyword. str_includes name keyword \<or> str_includes category keyword) libraryKeywords"

definition cmsKeywords :: "string list" where
  "cmsKeywords =
     [''wordpress'', ''drupal'', ''joomla'', ''magento'', ''shopify'', ''squarespace'',
      ''wix'', ''webflow'', ''ghost'', ''strapi'', ''contentful'', ''sanity'']"

definition isCMS :: "string \<Rightarrow> string \<Rightarrow> bool" where
  "isCMS name category =
     list_ex (\<lambda>keyword. str_includes name keyword \<or> str_includes category keyword) cmsKeywords"

definition ecommerceKeywords :: "string list" where
  "ecommerceKeywords =
     [''shopify'', ''woocommerce'', ''magento'', ''prestashop'', ''opencart'',
      ''bigcommerce'', ''squarespace'', ''wix'', ''webflow'', ''stripe'', ''paypal'',
      ''razorpay'', ''razorpay'', ''square'']"

definition isEcommerce :: "string \<Rightarrow> string \<Rightarrow> bool" where
  "isEcommerce name category =
     list_ex (\<lambda>keyword. str_includes name keyword \<or> str_includes category keyword) ecommerceKeywords"

definition analyticsKeywords :: "string list" where
  "analyticsKeywords =
     [''google analytics'', ''gtag'', ''ga'', ''hotjar'', ''segment'', ''mixpanel'',
      ''amplitude'', ''heap'', ''kissmetrics'', ''crazy egg'', ''optimizely'',
      ''google tag manager'', ''facebook pixel'', ''twitter pixel'']"

definition isAnalytics :: "string \<Rightarrow> string \<Rightarrow> bool" where
  "isAnalytics name category =
     list_ex (\<lambda>keyword. str_includes name keyword \<or> str_includes category keyword) analyticsKeywords"

definition serverKeywords :: "string list" where
  "serverKeywords =
     [''apache'', ''nginx'', ''iis'', ''lighttpd'', ''caddy'', ''traefik'']"

definition isWebServer :: "string \<Rightarrow> string \<Rightarrow> bool" where
  "isWebServer name category =
     list_ex (\<lambda>keyword. str_includes name keyword \<or> str_includes category keyword) serverKeywords"

definition cdnKeywords :: "string list" where
  "cdnKeywords =
     [''cloudflare'', ''akamai'', ''fastly'', ''aws cloudfront'', ''azure cdn'',
      ''google cloud cdn'', ''bunny cdn'', ''keycdn'', ''stackpath'']"

definition isCDN :: "string \<Rightarrow> string \<Rightarrow> bool" where
  "isCDN name category =
     list_ex (\<lambda>keyword. str_includes name keyword \<or> str_includes category keyword) cdnKeywords"

definition hostingKeywords :: "string list" where
  "hostingKeywords =
     [''aws'', ''amazon web services'', ''azure'', ''google cloud'', ''heroku'',
      ''digitalocean'', ''linode'', ''vultr'', ''netlify'', ''vercel'', ''firebase'',
      ''surge'', ''github pages'', ''gitlab pages'']"

definition isHosting :: "string \<Rightarrow> string \<Rightarrow> bool" where
  "isHosting name category =
     list_ex (\<lambda>keyword. str_includes name keyword \<or> str_includes category keyword) hostingKeywords"

definition cloudKeywords :: "string list" where
  "cloudKeywords =
     [''aws'', ''azure'', ''google cloud'', ''firebase'', ''supabase'', ''heroku'',
      ''vercel'', ''netlify'', ''digitalocean'', ''linode'', ''vultr'']"

definition isCloudService :: "string \<Rightarrow> string \<Rightarrow> bool" where
  "isCloudService name category =
     list_ex (\<lambda>keyword. str_includes name keyword \<or> str_includes category keyword) cloudKeywords"

definition securityKeywords :: "string list" where
  "securityKeywords =
     [''recaptcha'', ''ssl'', ''tls'', ''csp'', ''hsts'', ''xss protection'', ''csrf'',
      ''security headers'', ''cloudflare security'', ''sucuri'', ''incapsula'',
      ''akamai security'']"

definition isSecurity :: "string \<Rightarrow> string \<Rightarrow> bool" where
  "isSecurity name category =
     list_ex (\<lambda>keyword. str_includes name keyword \<or> str_includes category keyword) securityKeywords"

definition paymentKeywords :: "string list" where
  "paymentKeywords =
     [''stripe'', ''paypal'', ''razorpay'', ''square'', ''adyen'', ''braintree'',
      ''worldpay'', ''sage'', ''quickbooks'', ''xero'', ''freshbooks'']"

definition isPaymentProcessor :: "string \<Rightarrow> string \<Rightarrow> bool" where
  "isPaymentProcessor name category =
     list_ex (\<lambda>keyword. str_includes name keyword \<or> str_includes category keyword) paymentKeywords"

definition adKeywords :: "string list" where
  "adKeywords =
     [''google ads'', ''facebook ads'', ''twitter ads'', ''linkedin ads'', ''amazon ads'',
      ''bing ads'', ''taboola'', ''outbrain'', ''adroll'', ''google adwords'',
      ''google adsense'', ''doubleclick'']"

definition isAdvertisingNetwork :: "string \<Rightarrow> string \<Rightarrow> bool" where
  "isAdvertisingNetwork name category =
     list_ex (\<lambda>keyword. str_includes name keyword \<or> str_includes category keyword) adKeywords"

definition abTestingKeywords :: "string list" where
  "abTestingKeywords =
     [''optimizely'', ''vwo'', ''google optimize'', ''ab tasty'', ''convert'',
      ''kissmetrics'', ''mixpanel'', ''amplitude'', ''hotjar'', ''crazy egg'']"

definition isABTesting :: "string \<Rightarrow> string \<Rightarrow> bool" where
  "isABTesting name category =
     list_ex (\<lambda>keyword. str_includes name keyword \<or> str_includes category keyword) abTestingKeywords"

text \<open>\<open>categorizeTechnology\<close>: the \<open>if\<close>/\<open>else if\<close> chain, in the order of the source.\<close>

definition categorizeTechnology :: "tech_info \<Rightarrow> categories \<Rightarrow> categories" where
  "categorizeTechnology tech categories =
     (let name = toLowerCase (techName tech);
          category = toLowerCase (techCategory tech)
      in if isFrontendTech name category
         then categories\<lparr> techStack := (techStack categories)\<lparr> frontend := frontend (techStack categories) @ [tech] \<rparr> \<rparr>
         else if isBackendTech name category
         then categories\<lparr> techStack := (techStack categories)\<lparr> backend := backend (techStack categories) @ [tech] \<rparr> \<rparr>
         else if isDatabase name category
         then categories\<lparr> techStack := (techStack categories)\<lparr> databases := databases (techStack categories) @ [tech] \<rparr> \<rparr>
         else if isProgrammingLanguage name category
         then categories\<lparr> techStack := (techStack categories)\<lparr> programmingLanguages := programmingLanguages (techStack categories) @ [tech] \<rparr> \<rparr>
         else if isFramework name category
         then categories\<lparr> techStack := (techStack categories)\<lparr> frameworks := frameworks (techStack categories) @ [tech] \<rparr> \<rparr>
         else if isLibrary name category
         then categories\<lparr> techStack := (techStack categories)\<lparr> libraries := libraries (techStack categories) @ [tech] \<rparr> \<rparr>
         else if isCMS name category
         then categories\<lparr> cms := cms categories @ [tech] \<rparr>
         else if isEcommerce name category
         then categories\<lparr> ecommerce := ecommerce categories @ [tech] \<rparr>
         else if isAnalytics name category
         then categories\<lparr> analytics := analytics categories @ [tech] \<rparr>
         else if isWebServer name category
         then categories\<lparr> devops := (devops categories)\<lparr> webServers := webServers (devops categories) @ [tech] \<rparr> \<rparr>
         else if isCDN name category
         then categories\<lparr> devops := (devops categories)\<lparr> cdn := cdn (devops categories) @ [tech] \<rparr> \<rparr>
         else if isHosting name category
         then categories\<lparr> devops := (devops categories)\<lparr> hosting := hosting (devops categories) @ [tech] \<rparr> \<rparr>
         else if isCloudService name category
         then categories\<lparr> devops := (devops categories)\<lparr> cloudServices := cloudServices (devops categories) @ [tech] \<rparr> \<rparr>
         else if isSecurity name category
         then categories\<lparr> security := security categories @ [tech] \<rparr>
         else if isPaymentProcessor name category
         then categories\<lparr> competitor := (competitor categories)\<lparr> paymentProcessors := paymentProcessors (competitor categories) @ [tech] \<rparr> \<rparr>
         else if isAdvertisingNetwork name category
         then categories\<lparr> competitor := (competitor categories)\<lparr> advertisingNetworks := advertisingNetworks (competitor categories) @ [tech] \<rparr> \<rparr>
         else if isABTesting name category
         then categories\<lparr> competitor := (competitor categories)\<lparr> abTesting := abTesting (competitor categories) @ [tech] \<rparr> \<rparr>
         else categories)"

text \<open>
  \<open>categorizeTechnologies\<close>: \<open>None\<close> stands for a result that is missing or has no
  \<open>technologies\<close>; otherwise the technologies are categorised one after the other.
\<close>

definition categorizeTechnologies :: "tech_raw list option \<Rightarrow> categories" where
  "categorizeTechnologies results =
     (case results of
        None \<Rightarrow> emptyCategories
      | Some technologies \<Rightarrow>
          foldl (\<lambda>cats tech. categorizeTechnology (techInfoOf tech) cats) emptyCategories technologies)"

text \<open>
  The tables as a priority list: the buckets in the order of the \<open>if\<close> chain, the
  keyword table of each bucket, and the list each bucket denotes in the result.
\<close>

datatype bucket =
    Frontend
  | Backend
  | Databases
  | ProgrammingLanguages
  | Frameworks
  | Libraries
  | Cms
  | Ecommerce
  | Analytics
  | WebServers
  | Cdn
  | Hosting
  | CloudServices
  | Security
  | PaymentProcessors
  | AdvertisingNetworks
  | AbTesting

definition bucketOrder :: "bucket list" where
  "bucketOrder =
     [Frontend, Backend, Databases, ProgrammingLanguages, Frameworks,
      Libraries, Cms, Ecommerce, Analytics, WebServers,
      Cdn, Hosting, CloudServices, Security, PaymentProcessors,
      AdvertisingNetworks, AbTesting]"

fun bucketKeywords :: "bucket \<Rightarrow> string list" where
  "bucketKeywords Frontend = frontendKeywords"
| "bucketKeywords Backend = backendKeywords"
| "bucketKeywords Databases = databaseKeywords"
| "bucketKeywords ProgrammingLanguages = languageKeywords"
| "bucketKeywords Frameworks = frameworkKeywords"
| "bucketKeywords Libraries = libraryKeywords"
| "bucketKeywords Cms = cmsKeywords"
| "bucketKeywords Ecommerce = ecommerceKeywords"
| "bucketKeywords Analytics = analyticsKeywords"
| "bucketKeywords WebServers = serverKeywords"
| "bucketKeywords Cdn = cdnKeywords"
| "bucketKeywords Hosting = hostingKeywords"
| "bucketKeywords CloudServices = cloudKeywords"
| "bucketKeywords Security = securityKeywords"
| "bucketKeywords PaymentProcessors = paymentKeywords"
| "bucketKeywords AdvertisingNetworks = adKeywords"
| "bucketKeywords AbTesting = abTestingKeywords"

fun bucketContents :: "bucket \<Rightarrow> categories \<Rightarrow> tech_info list" where
  "bucketContents Frontend c = frontend (techStack c)"
| "bucketContents Backend c = backend (techStack c)"
| "bucketContents Databases c = databases (techStack c)"
| "bucketContents ProgrammingLanguages c = programmingLanguages (techStack c)"
| "bucketContents Frameworks c = frameworks (techStack c)"
| "bucketContents Libraries c = libraries (techStack c)"
| "bucketContents Cms c = cms c"
| "bucketContents Ecommerce c = ecommerce c"
| "bucketContents Analytics c = analytics c"
| "bucketContents WebServers c = webServers (devops c)"
| "bucketContents Cdn c = cdn (devops c)"
| "bucketContents Hosting c = hosting (devops c)"
| "bucketContents CloudServices c = cloudServices (devops c)"
| "bucketContents Security c = security c"
| "bucketContents PaymentProcessors c = paymentProcessors (competitor c)"
| "bucketContents AdvertisingNetworks c = advertisingNetworks (competitor c)"
| "bucketContents AbTesting c = abTesting (competitor c)"

definition matchesBucket :: "bucket \<Rightarrow> tech_info \<Rightarrow> bool" where
  "matchesBucket b tech =
     (let name = toLowerCase (techName tech);
          category = toLowerCase (techCategory tech)
      in list_ex (\<lambda>keyword. str_includes name keyword \<or> str_includes category keyword)
                 (bucketKeywords b))"

text \<open>
  A technology is placed in bucket \<open>b\<close> when \<open>b\<close> matches it and no bucket before \<open>b\<close>
  in the priority order does.
\<close>

definition placedIn :: "bucket \<Rightarrow> tech_info \<Rightarrow> bool" where
  "placedIn b tech =
     (matchesBucket b tech
      \<and> list_all (\<lambda>b'. \<not> matchesBucket b' tech) (takeWhile (\<lambda>b'. b' \<noteq> b) bucketOrder))"

text \<open>Three detections: jQuery, nginx and a technology no table knows.\<close>

definition exampleTechnologies :: "tech_raw list" where
  "exampleTechnologies =
     [\<lparr> rawName = ''jQuery'', rawVersion = Some ''3.6.0'', rawConfidence = Some 100,
         rawCategory = Some ''JavaScript libraries'', rawDescription = None \<rparr>,
      \<lparr> rawName = ''Nginx'', rawVersion = None, rawConfidence = Some 100,
         rawCategory = None, rawDescription = None \<rparr>,
      \<lparr> rawName = ''Zzz'', rawVersion = None, rawConfidence = None,
         rawCategory = None, rawDescription = None \<rparr>]"


section \<open>The Lighthouse report\<close>

text \<open>
  The report is read over the fixed schema the service accesses. A field that may be
  missing is an \<open>option\<close> (\<open>None\<close> is \<open>undefined\<close> or \<open>null\<close>); an object is an
  association list in which every key occurs once. Numbers are rationals.

  \<open>jsdata\<close> is a value expected to be a string: \<open>NoData\<close> is a falsy value that is not a
  string, \<open>NonString\<close> a truthy value that is not a string.
\<close>

datatype jsdata = NoData | NonString | Str string

record image =
  imgData :: jsdata
  imgWidth :: "rat option"
  imgHeight :: "rat option"

record raw_screenshot = image +
  rawTimestamp :: "rat option"

record raw_frame =
  frameScreenshot :: "image option"
  frameTimestamp :: "rat option"

record audit_details = image +
  items :: "rat option list option"

record audit =
  displayValue :: "string option"
  numericValue :: "rat option"
  auditDetails :: "audit_details option"

record report =
  runtimeError :: "string option option"
  reportCategories :: "(string \<times> rat option option) list option"
  audits :: "(string \<times> audit) list option"
  screenshots :: "raw_screenshot list option"
  filmstrip :: "raw_frame list option"

text \<open>\<open>x || d\<close> on a number that may be missing: zero is falsy.\<close>

definition num_or :: "rat option \<Rightarrow> rat \<Rightarrow> rat" where
  "num_or v d = (case v of None \<Rightarrow> d | Some x \<Rightarrow> if x \<noteq> 0 then x else d)"

text \<open>\<open>x || null\<close>.\<close>

definition num_or_null :: "rat option \<Rightarrow> rat option" where
  "num_or_null v = (case v of None \<Rightarrow> None | Some x \<Rightarrow> if x \<noteq> 0 then Some x else None)"


section \<open>Number formatting\<close>

text \<open>
  Decimal numerals of integers, as a template literal prints them: all the digits, for
  an integer below 2 to the power 53 in magnitude. The integers printed by the service
  are readings of \<open>Date.now()\<close>, HTTP status codes and array indices. \<open>showDec\<close>
  writes a non-negative integer.
\<close>

function showDec :: "int \<Rightarrow> string" where
  "showDec n = (if n < 10 then [char_of (48 + n)]
                else showDec (n div 10) @ [char_of (48 + n mod 10)])"
  by pat_completeness auto
termination
  by (relation "measure nat") auto

declare showDec.simps [simp del]

definition showNat :: "nat \<Rightarrow> string" where
  "showNat n = showDec (int n)"

definition showInt :: "int \<Rightarrow> string" where
  "showInt i = (if i < 0 then ''-'' @ showDec (- i) else showDec i)"


section \<open>Screenshot extraction\<close>

datatype shot_id = NumId nat | StrId string

text \<open>
  The description of a screenshot is one of the fixed texts of the source, or one of
  the two templates
  \<^verbatim>\<open>`Loading at ${(timestamp / 1000).toFixed(1)}s`\<close> and
  \<^verbatim>\<open>`Filmstrip at ${(timestamp / 1000).toFixed(1)}s`\<close>,
  kept as the template with the timestamp it is filled with: the decimal printing
  of the number is not computed here.
\<close>

datatype shot_description = Fixed string | LoadingAt rat | FilmstripAt rat

record timeline_metrics =
  firstContentfulPaint :: "rat option"
  largestContentfulPaint :: "rat option"
  speedIndex :: "rat option"
  timeToInteractive :: "rat option"
  firstMeaningfulPaint :: "rat option"
  domContentLoaded :: "rat option"

record screenshot =
  shotId :: shot_id
  shotTimestamp :: rat
  shotData :: string
  shotWidth :: rat
  shotHeight :: rat
  shotDescription :: shot_description
  shotPhase :: string
  timelineContext :: "timeline_metrics option"

text \<open>\<open>s.split(sep)\<close> and \<open>xs[i]\<close> (\<open>undefined\<close> out of range).\<close>

fun splitOn :: "char \<Rightarrow> string \<Rightarrow> string list" where
  "splitOn sep [] = [[]]"
| "splitOn sep (c # cs) =
     (if c = sep then [] # splitOn sep cs
      else (case splitOn sep cs of [] \<Rightarrow> [[c]] | p # ps \<Rightarrow> (c # p) # ps))"

definition nthOpt :: "'a list \<Rightarrow> nat \<Rightarrow> 'a option" where
  "nthOpt xs i = (if i < length xs then Some (xs ! i) else None)"

text \<open>
  \<^verbatim>\<open>if (base64Data.startsWith('data:image/')) { base64Data = base64Data.split(',')[1]; }\<close>
\<close>

definition stripDataUrl :: "string \<Rightarrow> string option" where
  "stripDataUrl base64Data =
     (if startsWith base64Data ''data:image/'' then nthOpt (splitOn (CHR '','') base64Data) 1
      else Some base64Data)"

text \<open>
  The guards shared by the three sources of screenshots: the data is truthy, it is a
  string, and what is left of it after the data URL prefix is a non-empty string.
\<close>

definition usableData :: "jsdata \<Rightarrow> string option" where
  "usableData d =
     (case d of
        NoData \<Rightarrow> None
      | NonString \<Rightarrow> None
      | Str s \<Rightarrow> if s = [] then None
                 else (case stripDataUrl s of
                         None \<Rightarrow> None
                       | Some b \<Rightarrow> if b = [] then None else Some b))"

definition getLoadingPhase :: "rat \<Rightarrow> nat \<Rightarrow> string" where
  "getLoadingPhase timestamp index =
     (if timestamp < 1000 then ''initial''
      else if timestamp < 3000 then ''early''
      else if timestamp < 8000 then ''loading''
      else if timestamp < 15000 then ''late''
      else ''complete'')"

text \<open>The body of \<open>reportData.screenshots.forEach((screenshot, index) => ...)\<close>.\<close>

definition fromScreenshot :: "nat \<Rightarrow> raw_screenshot \<Rightarrow> screenshot list" where
  "fromScreenshot index s =
     (case usableData (imgData s) of
        None \<Rightarrow> []
      | Some base64Data \<Rightarrow>
          (let timestamp = num_or (rawTimestamp s) (of_nat index * 1000)
           in [\<lparr> shotId = NumId index, shotTimestamp = timestamp, shotData = base64Data,
                  shotWidth = num_or (imgWidth s) 1200, shotHeight = num_or (imgHeight s) 800,
                  shotDescription = LoadingAt timestamp,
                  shotPhase = getLoadingPhase timestamp index,
                  timelineContext = None \<rparr>]))"

text \<open>The body of \<open>reportData.filmstrip.forEach((frame, index) => ...)\<close>.\<close>

definition fromFrame :: "nat \<Rightarrow> raw_frame \<Rightarrow> screenshot list" where
  "fromFrame index frame =
     (case frameScreenshot frame of
        None \<Rightarrow> []
      | Some img \<Rightarrow>
          (case usableData (imgData img) of
             None \<Rightarrow> []
           | Some base64Data \<Rightarrow>
               (let timestamp = num_or (frameTimestamp frame) (of_nat index * 1000)
                in [\<lparr> shotId = StrId (''filmstrip-'' @ showNat index),
                       shotTimestamp = timestamp, shotData = base64Data,
                       shotWidth = num_or (imgWidth img) 1200,
                       shotHeight = num_or (imgHeight img) 800,
                       shotDescription = FilmstripAt timestamp,
                       shotPhase = getLoadingPhase timestamp index,
                       timelineContext = None \<rparr>])))"

text \<open>
  The final screenshot of \<open>audits['final-screenshot']\<close>. Its timestamp is the reading of
  the clock (\<open>Date.now()\<close>) at the time of the call, the parameter \<open>now\<close>.
\<close>

definition finalScreenshotDetails :: "report \<Rightarrow> audit_details option" where
  "finalScreenshotDetails reportData =
     (case audits reportData of
        None \<Rightarrow> None
      | Some as \<Rightarrow> (case map_of as ''final-screenshot'' of
                     None \<Rightarrow> None
                   | Some finalScreenshot \<Rightarrow> auditDetails finalScreenshot))"

definition fromFinal :: "int \<Rightarrow> report \<Rightarrow> screenshot list" where
  "fromFinal now reportData =
     (case finalScreenshotDetails reportData of
        None \<Rightarrow> []
      | Some d \<Rightarrow>
          (case usableData (imgData d) of
             None \<Rightarrow> []
           | Some base64Data \<Rightarrow>
               [\<lparr> shotId = StrId ''final'', shotTimestamp = of_int now, shotData = base64Data,
                   shotWidth = num_or (imgWidth d) 1200, shotHeight = num_or (imgHeight d) 800,
                   shotDescription = Fixed ''Final loaded page'', shotPhase = ''complete'',
                   timelineContext = None \<rparr>]))"

text \<open>
  \<open>removeDuplicateScreenshots\<close>: a filter that keeps the first screenshot of every key
  \<open>Math.round(timestamp / 100)\<close>; \<open>seen\<close> is the set of keys met so far.
\<close>

fun keepUnseen :: "int list \<Rightarrow> screenshot list \<Rightarrow> screenshot list" where
  "keepUnseen seen [] = []"
| "keepUnseen seen (s # ss) =
     (let key = js_round (shotTimestamp s / 100)
      in if key \<in> set seen then keepUnseen seen ss else s # keepUnseen (key # seen) ss)"

definition removeDuplicateScreenshots :: "screenshot list \<Rightarrow> screenshot list" where
  "removeDuplicateScreenshots ss = keepUnseen [] ss"

definition auditNumeric :: "(string \<times> audit) list \<Rightarrow> string \<Rightarrow> rat option" where
  "auditNumeric as key =
     num_or_null (case map_of as key of None \<Rightarrow> None | Some a \<Rightarrow> numericValue a)"

definition getPerformanceMetricsForTimeline :: "report \<Rightarrow> timeline_metrics" where
  "getPerformanceMetricsForTimeline reportData =
     (let as = (case audits reportData of None \<Rightarrow> [] | Some as \<Rightarrow> as)
      in \<lparr> firstContentfulPaint = auditNumeric as ''first-contentful-paint'',
            largestContentfulPaint = auditNumeric as ''largest-contentful-paint'',
            speedIndex = auditNumeric as ''speed-index'',
            timeToInteractive = auditNumeric as ''interactive'',
            firstMeaningfulPaint = auditNumeric as ''first-meaningful-paint'',
            domContentLoaded = num_or_null
              (case map_of as ''mainthread-work-breakdown'' of
                 None \<Rightarrow> None
               | Some a \<Rightarrow> (case auditDetails a of
                    None \<Rightarrow> None
                  | Some d \<Rightarrow> (case items d of
                       None \<Rightarrow> None
                     | Some its \<Rightarrow> (case nthOpt its 0 of None \<Rightarrow> None | Some i \<Rightarrow> i)))) \<rparr>)"

text \<open>\<open>m && timestamp >= m\<close> for a metric that is a non-zero number or \<open>null\<close>.\<close>

definition reached :: "rat option \<Rightarrow> rat \<Rightarrow> bool" where
  "reached m timestamp = (case m of None \<Rightarrow> False | Some v \<Rightarrow> timestamp \<ge> v)"

definition getEnhancedDescription :: "screenshot \<Rightarrow> timeline_metrics \<Rightarrow> shot_description" where
  "getEnhancedDescription s metrics =
     (if reached (firstContentfulPaint metrics) (shotTimestamp s)
      then (if reached (largestContentfulPaint metrics) (shotTimestamp s)
            then Fixed ''Fully loaded page (post-LCP)''
            else if reached (speedIndex metrics) (shotTimestamp s)
            then Fixed ''Page mostly loaded (post-Speed Index)''
            else Fixed ''Content visible (post-FCP)'')
      else Fixed ''Initial page load state'')"

definition determinePhaseFromMetrics :: "timeline_metrics \<Rightarrow> string" where
  "determinePhaseFromMetrics metrics =
     (if timeToInteractive metrics \<noteq> None \<and> largestContentfulPaint metrics \<noteq> None
      then ''complete''
      else if largestContentfulPaint metrics \<noteq> None then ''late''
      else if firstContentfulPaint metrics \<noteq> None then ''loading''
      else ''initial'')"

text \<open>
  \<open>extractScreenshots\<close>. The three sources are appended in the order of the source,
  sorted by timestamp (\<open>Array.prototype.sort\<close> is stable), de-duplicated, and a lone
  screenshot is given its timeline context. On the typed report no statement of the
  \<open>try\<close> block throws, so the \<open>catch\<close> branch (which returns the empty list) is not
  reached.
\<close>

definition collectScreenshots :: "int \<Rightarrow> report \<Rightarrow> screenshot list" where
  "collectScreenshots now reportData =
       (case screenshots reportData of
          None \<Rightarrow> []
        | Some ss \<Rightarrow> if length ss > 0
                     then concat (map (\<lambda>(index, s). fromScreenshot index s) (enumerate 0 ss))
                     else [])
     @ (case filmstrip reportData of
          None \<Rightarrow> []
        | Some fs \<Rightarrow> if length fs > 0
                     then concat (map (\<lambda>(index, f). fromFrame index f) (enumerate 0 fs))
                     else [])
     @ fromFinal now reportData"

definition extractScreenshots :: "int \<Rightarrow> report \<Rightarrow> screenshot list" where
  "extractScreenshots now reportData =
     (let sorted = sort_key shotTimestamp (collectScreenshots now reportData);
          uniqueScreenshots = removeDuplicateScreenshots sorted
      in (case uniqueScreenshots of
            [singleScreenshot] \<Rightarrow>
              (let performanceMetrics = getPerformanceMetricsForTimeline reportData
               in [singleScreenshot\<lparr>
                     shotDescription := getEnhancedDescription singleScreenshot performanceMetrics,
                     shotPhase := determinePhaseFromMetrics performanceMetrics,
                     timelineContext := Some performanceMetrics \<rparr>])
          | _ \<Rightarrow> uniqueScreenshots))"

text \<open>
  Two reports: one whose only image is the final screenshot, and one with two timed
  screenshots and no final screenshot.
\<close>

definition emptyReport :: report where
  "emptyReport = \<lparr> runtimeError = None, reportCategories = None, audits = None,
                    screenshots = None, filmstrip = None \<rparr>"

definition finalOnlyReport :: report where
  "finalOnlyReport =
     emptyReport\<lparr> audits := Some
       [(''final-screenshot'',
         \<lparr> displayValue = None, numericValue = None,
           auditDetails = Some \<lparr> imgData = Str ''data:image/jpeg;base64,AAAA'',
                                 imgWidth = Some 1350, imgHeight = Some 940,
                                 items = None \<rparr> \<rparr>)] \<rparr>"

definition timedReport :: report where
  "timedReport =
     emptyReport\<lparr> screenshots := Some
       [\<lparr> imgData = Str ''AAAA'', imgWidth = None, imgHeight = None, rawTimestamp = Some 2500 \<rparr>,
        \<lparr> imgData = Str ''BBBB'', imgWidth = None, imgHeight = None, rawTimestamp = None \<rparr>] \<rparr>"

text \<open>The report holds a final screenshot that passes the guards of \<open>extractScreenshots\<close>.\<close>

definition hasFinalScreenshot :: "report \<Rightarrow> bool" where
  "hasFinalScreenshot reportData =
     (case finalScreenshotDetails reportData of
        None \<Rightarrow> False
      | Some d \<Rightarrow> usableData (imgData d) \<noteq> None)"


section \<open>The JSON bodies of the service handlers\<close>

text \<open>
  The body a service handler returns. A field that is absent from the object is
  \<open>None\<close>; \<open>bodyPayload\<close> stands for the handler's own fields of a successful analysis
  (\<open>...result\<close>), which no error body has.
\<close>

record 'p body =
  bodyUrl :: string
  bodySuccess :: "bool option"
  bodyError :: "bool option"
  bodyMessage :: "string option"
  bodyTimestamp :: "string option"
  bodyPayload :: "'p option"

text \<open>
  The \<open>catch\<close> block shared by \<open>analyzeTechStack\<close>, \<open>analyzeSecurityHeaders\<close>,
  \<open>analyzeMobileFriendly\<close> and \<open>analyzeCoreWebVitals\<close>:
  \<open>{ url, success: false, error: true, message: `<what failed>: ${error.message}`, timestamp }\<close>.
\<close>

definition failureBody :: "string \<Rightarrow> string \<Rightarrow> string \<Rightarrow> string \<Rightarrow> 'p body" where
  "failureBody url what m stamp =
     \<lparr> bodyUrl = url, bodySuccess = Some False, bodyError = Some True,
       bodyMessage = Some (what @ '': '' @ m), bodyTimestamp = Some stamp, bodyPayload = None \<rparr>"

text \<open>\<open>{ url, success: true, timestamp, ...result }\<close>.\<close>

definition successBody :: "string \<Rightarrow> string \<Rightarrow> 'p \<Rightarrow> 'p body" where
  "successBody url stamp result =
     \<lparr> bodyUrl = url, bodySuccess = Some True, bodyError = None,
       bodyMessage = None, bodyTimestamp = Some stamp, bodyPayload = Some result \<rparr>"

text \<open>The error body of the uniform policy: \<open>{ url, error: true, message }\<close>.\<close>

definition isErrorBody :: "string \<Rightarrow> 'p body \<Rightarrow> bool" where
  "isErrorBody u b =
     (bodyUrl b = u \<and> bodyError b = Some True \<and> bodyMessage b \<noteq> None \<and> bodyPayload b = None)"


section \<open>Security headers handler\<close>

text \<open>
  \<open>getSecurityHeaders\<close>: the promise resolves with the analysis of the response headers
  and rejects on every other outcome of the request.
\<close>

definition getSecurityHeaders :: "(string \<Rightarrow> http_outcome) \<Rightarrow> string \<Rightarrow> security_analysis promise" where
  "getSecurityHeaders httpGet url =
     (let isHttps = startsWith url ''https://'' in
      case httpGet url of
        Responded res \<Rightarrow> Inr (analyzeSecurityHeadersData (resHeaders res) isHttps)
      | ErrorEvent m \<Rightarrow> Inl m
      | TimerFired \<Rightarrow> Inl ''Request timeout after 10 seconds''
      | SocketTimeout \<Rightarrow> Inl ''Request timeout''
      | GetThrew m \<Rightarrow> Inl m)"

text \<open>
  \<open>analyzeSecurityHeaders\<close>. \<open>stamp\<close> is the value of \<open>new Date().toISOString()\<close>.
  The second component is the list of external invocations.
\<close>

definition analyzeSecurityHeaders ::
  "(string \<Rightarrow> http_outcome) \<Rightarrow> string \<Rightarrow> string \<Rightarrow> security_analysis body \<times> ext_call list" where
  "analyzeSecurityHeaders httpGet stamp url0 =
     (let url = normalizeUrl url0 in
      case getSecurityHeaders httpGet url of
        Inr headers \<Rightarrow> (successBody url stamp headers, [HttpGet url])
      | Inl m \<Rightarrow> (failureBody url ''Failed to analyze security headers'' m stamp, [HttpGet url]))"


section \<open>Technology stack handler\<close>

text \<open>
  The fingerprinting library: loading it (\<open>require\<close> and \<open>new Wappalyzer()\<close>), \<open>init\<close>,
  \<open>open\<close>, \<open>analyze\<close> and \<open>destroy\<close> may each fail with a message.
\<close>

record wappalyzer =
  loadError :: "string option"
  initError :: "string option"
  openError :: "string \<Rightarrow> string option"
  analyze :: "string \<Rightarrow> tech_raw list option promise"
  destroyError :: "string option"

text \<open>The \<open>try\<close> block of \<open>analyzeTechStack\<close>, after the URL is normalised.\<close>

definition tryTechStack :: "wappalyzer \<Rightarrow> string \<Rightarrow> categories promise \<times> ext_call list" where
  "tryTechStack wp url =
     (case loadError wp of
        Some m \<Rightarrow> (Inl m, [])
      | None \<Rightarrow>
     (case initError wp of
        Some m \<Rightarrow> (Inl m, [WappalyzerInit])
      | None \<Rightarrow>
     (case openError wp url of
        Some m \<Rightarrow> (Inl m, [WappalyzerInit, WappalyzerOpen url])
      | None \<Rightarrow>
     (case analyze wp url of
        Inl m \<Rightarrow> (Inl m, [WappalyzerInit, WappalyzerOpen url, WappalyzerAnalyze])
      | Inr results \<Rightarrow>
     (let categorizedResults = categorizeTechnologies results in
      case destroyError wp of
        Some m \<Rightarrow>
          (Inl m, [WappalyzerInit, WappalyzerOpen url, WappalyzerAnalyze, WappalyzerDestroy])
      | None \<Rightarrow>
          (Inr categorizedResults,
           [WappalyzerInit, WappalyzerOpen url, WappalyzerAnalyze, WappalyzerDestroy]))))))"

definition analyzeTechStack ::
  "wappalyzer \<Rightarrow> string \<Rightarrow> string \<Rightarrow> categories body \<times> ext_call list" where
  "analyzeTechStack wp stamp url0 =
     (let url = normalizeUrl url0 in
      case tryTechStack wp url of
        (Inr categorizedResults, calls) \<Rightarrow> (successBody url stamp categorizedResults, calls)
      | (Inl m, calls) \<Rightarrow> (failureBody url ''Failed to analyze tech stack'' m stamp, calls))"


section \<open>Core Web Vitals handler\<close>

text \<open>
  \<open>fetch(apiUrl, { method: 'POST', body })\<close> followed by the reading of the response, as
  \<open>cruxFetch\<close> does it: the request fails (\<open>NetworkError\<close>), the response is not \<open>ok\<close>
  (\<open>HttpError status statusText detail\<close>, where \<open>detail\<close> is what was read from the error
  body, empty when nothing was), the body of an \<open>ok\<close> response cannot be read, or the
  result arrives.
\<close>

datatype 'r fetch_outcome =
    NetworkError string
  | HttpError nat string string
  | BodyUnreadable string
  | Fetched 'r

text \<open>
  What the handler takes from outside: \<open>new URL(url).origin\<close> (which throws on a string
  that is not a URL), \<open>process.env.GOOGLE_API_KEY\<close>, the API, and the reshaping of a CrUX
  result into the analysis (\<open>parseMetrics\<close>, \<open>calculateCoreWebVitalsSummary\<close>), which is
  not modelled and may throw.
\<close>

record ('r, 'a) crux_world =
  urlOrigin :: "string \<Rightarrow> string promise"
  apiKey :: "string option"
  fetch :: "string \<Rightarrow> crux_query \<Rightarrow> 'r fetch_outcome"
  summarize :: "'r \<Rightarrow> 'a promise"

text \<open>
  \<open>cruxFetch\<close>: an error carries its message and, for a response that is not \<open>ok\<close>, the
  \<open>status\<close> property.
\<close>

definition cruxFetch ::
  "('r, 'a) crux_world \<Rightarrow> string \<Rightarrow> crux_query \<Rightarrow> (string \<times> nat option) + 'r" where
  "cruxFetch w apiUrl q =
     (case fetch w apiUrl q of
        NetworkError m \<Rightarrow> Inl (m, None)
      | HttpError st statusText detail \<Rightarrow>
          Inl (''CrUX API request failed: '' @ showNat st @ '' '' @ statusText
                 @ (if detail \<noteq> [] then '' - '' @ detail else []),
               Some st)
      | BodyUnreadable m \<Rightarrow> Inl (m, None)
      | Fetched r \<Rightarrow> Inr r)"

definition cruxApiUrl :: "string \<Rightarrow> string" where
  "cruxApiUrl key = ''https://chromeuxreport.googleapis.com/v1/records:queryRecord?key='' @ key"

text \<open>
  \<open>runCoreWebVitalsAnalysis\<close>: the page query first, and the origin query when the page
  query failed with status 404.
\<close>

definition queryCrux ::
  "('r, 'a) crux_world \<Rightarrow> string \<Rightarrow> string \<Rightarrow> 'a promise \<times> ext_call list" where
  "queryCrux w apiUrl origin =
     (case cruxFetch w apiUrl (ByUrl origin) of
        Inr result \<Rightarrow> (summarize w result, [ApiPost apiUrl (ByUrl origin)])
      | Inl (m, st) \<Rightarrow>
          if st = Some 404
          then (case cruxFetch w apiUrl (ByOrigin origin) of
                  Inr result \<Rightarrow>
                    (summarize w result,
                     [ApiPost apiUrl (ByUrl origin), ApiPost apiUrl (ByOrigin origin)])
                | Inl (m2, st2) \<Rightarrow>
                    (Inl m2,
                     [ApiPost apiUrl (ByUrl origin), ApiPost apiUrl (ByOrigin origin)]))
          else (Inl m, [ApiPost apiUrl (ByUrl origin)]))"

definition runCoreWebVitalsAnalysis ::
  "('r, 'a) crux_world \<Rightarrow> string \<Rightarrow> 'a promise \<times> ext_call list" where
  "runCoreWebVitalsAnalysis w origin =
     (case apiKey w of
        None \<Rightarrow> (Inl ''GOOGLE_API_KEY is not set.'', [])
      | Some key \<Rightarrow>
          if key = [] then (Inl ''GOOGLE_API_KEY is not set.'', [])
          else queryCrux w (cruxApiUrl key) origin)"

definition analyzeCoreWebVitals ::
  "('r, 'a) crux_world \<Rightarrow> string \<Rightarrow> string \<Rightarrow> (string \<times> 'a) body \<times> ext_call list" where
  "analyzeCoreWebVitals w stamp url0 =
     (let url = normalizeUrl url0 in
      case urlOrigin w url of
        Inl m \<Rightarrow> (failureBody url ''Failed to analyze Core Web Vitals'' m stamp, [])
      | Inr origin \<Rightarrow>
          (case runCoreWebVitalsAnalysis w origin of
             (Inr result, calls) \<Rightarrow> (successBody url stamp (origin, result), calls)
           | (Inl m, calls) \<Rightarrow>
               (failureBody url ''Failed to analyze Core Web Vitals'' m stamp, calls)))"


section \<open>Mobile-friendly handler\<close>

text \<open>
  What the mobile-friendly code of the service can reach from outside: Node's HTTP
  client for the page, \<open>process.env.GOOGLE_API_KEY\<close>, the Mobile-Friendly Test API
  behind \<open>fetch\<close>, and the reading of an answer of that API into the analysis (the body
  of \<open>runMobileFriendlyTest\<close> after \<open>response.json()\<close>), which is not modelled and may
  throw.
\<close>

record 'r mobile_world =
  pageGet :: "string \<Rightarrow> http_outcome"
  mobileApiKey :: "string option"
  mobileApi :: "string \<Rightarrow> string \<Rightarrow> 'r fetch_outcome"
  readApiResult :: "'r \<Rightarrow> mobile_analysis promise"

definition mobileApiUrl :: "string \<Rightarrow> string" where
  "mobileApiUrl key =
     ''https://searchconsole.googleapis.com/v1/urlTestingTools/mobileFriendlyTest:run?key='' @ key"

text \<open>
  \<open>runMobileFriendlyTest\<close>, the private method that asks the remote API: without a key
  it throws before any request; a failed request, a response that is not \<open>ok\<close> and an
  unreadable body are rethrown by its \<open>catch\<close> block.
\<close>

definition runMobileFriendlyTest ::
  "'r mobile_world \<Rightarrow> string \<Rightarrow> mobile_analysis promise \<times> ext_call list" where
  "runMobileFriendlyTest w url =
     (case mobileApiKey w of
        None \<Rightarrow> (Inl ''GOOGLE_API_KEY is not set.'', [])
      | Some key \<Rightarrow>
          if key = [] then (Inl ''GOOGLE_API_KEY is not set.'', [])
          else
            (let apiUrl = mobileApiUrl key in
             ((case mobileApi w apiUrl url of
                 NetworkError m \<Rightarrow> Inl m
               | HttpError st statusText detail \<Rightarrow>
                   Inl (''API request failed: '' @ showNat st @ '' '' @ statusText
                          @ (if detail \<noteq> [] then '' - '' @ detail else []))
               | BodyUnreadable m \<Rightarrow> Inl m
               | Fetched result \<Rightarrow> readApiResult w result),
              [MobileApiPost apiUrl url])))"

text \<open>
  \<open>analyzeMobileFriendly\<close>, the handler:
  \<^verbatim>\<open>const result = await this.analyzeMobileFriendlyWithoutApi(url);\<close>
\<close>

definition analyzeMobileFriendly ::
  "'r mobile_world \<Rightarrow> string \<Rightarrow> string \<Rightarrow> mobile_analysis body \<times> ext_call list" where
  "analyzeMobileFriendly w stamp url0 =
     (let url = normalizeUrl url0 in
      case analyzeMobileFriendlyWithoutApi (pageGet w) url of
        (Inr result, calls) \<Rightarrow> (successBody url stamp result, calls)
      | (Inl m, calls) \<Rightarrow>
          (failureBody url ''Failed to analyze mobile-friendliness'' m stamp, calls))"


section \<open>The website probe of the controller\<close>

text \<open>
  \<open>testWebsite\<close> returns \<open>new Promise(...)\<close> from inside its \<open>try\<close> block without
  awaiting it. The promise resolves in the response callback, in the \<open>error\<close> listener
  and in the socket timeout callback (the only timer of this handler, so both timeout
  outcomes stand for it); when \<open>https.get\<close> throws inside the executor the promise is
  rejected, and the \<open>catch\<close> block of the handler, which guards only the synchronous
  statements before the \<open>return\<close>, does not see the rejection.
\<close>

record probe_body =
  probeUrl :: string
  probeStatusCode :: "nat option"
  accessible :: bool
  probeMessage :: string

datatype 'b settled = Resolved 'b | Rejected string

definition testWebsite ::
  "(string \<Rightarrow> http_outcome) \<Rightarrow> string \<Rightarrow> probe_body settled \<times> ext_call list" where
  "testWebsite httpsGet url =
     (let target = urlToTest url in
      ((case httpsGet target of
         Responded res \<Rightarrow>
           Resolved \<lparr> probeUrl = target, probeStatusCode = Some (statusCode res),
                      accessible = (statusCode res \<ge> 200 \<and> statusCode res < 400),
                      probeMessage = ''Website responded with status code: ''
                                       @ showNat (statusCode res) \<rparr>
       | ErrorEvent m \<Rightarrow>
           Resolved \<lparr> probeUrl = target, probeStatusCode = None, accessible = False,
                      probeMessage = ''Website is not accessible: '' @ m \<rparr>
       | TimerFired \<Rightarrow>
           Resolved \<lparr> probeUrl = target, probeStatusCode = None, accessible = False,
                      probeMessage = ''Website connection timed out after 10 seconds'' \<rparr>
       | SocketTimeout \<Rightarrow>
           Resolved \<lparr> probeUrl = target, probeStatusCode = None, accessible = False,
                      probeMessage = ''Website connection timed out after 10 seconds'' \<rparr>
       | GetThrew m \<Rightarrow> Rejected m),
       [HttpGet target]))"

section \<open>Configuration\<close>

text \<open>
  \<open>parseInt(s, 10)\<close>: leading white space, an optional sign, then the longest run of
  decimal digits. The result is \<open>NaN\<close> when there is no digit; it is the integer
  written when that is below 2 to the power 53 in magnitude (\<open>IntValue\<close>, which stands
  for \<open>-0\<close> too);
  beyond that JavaScript returns the nearest double or an infinity, which is not
  computed here (\<open>Beyond\<close>).
\<close>

datatype js_int = NaN | IntValue int | Beyond

definition digitsValue :: "string \<Rightarrow> int" where
  "digitsValue ds = foldl (\<lambda>acc c. 10 * acc + (of_char c - 48)) 0 ds"

definition parseInt10 :: "string \<Rightarrow> js_int" where
  "parseInt10 s =
     (let t = dropWhile isSpace s;
          negative = (case t of [] \<Rightarrow> False | c # r \<Rightarrow> c = CHR ''-'');
          unsigned = (case t of [] \<Rightarrow> []
                      | c # r \<Rightarrow> if c = CHR ''-'' \<or> c = CHR ''+'' then r else t);
          ds = takeWhile isDigit unsigned
      in if ds = [] then NaN
         else if digitsValue ds < 9007199254740992
         then IntValue (if negative then - digitsValue ds else digitsValue ds)
         else Beyond)"

record lighthouse_config =
  timeout :: js_int
  chromeFlags :: string

record configuration_t =
  port :: js_int
  frontendUrl :: string
  environment :: string
  lighthouse :: lighthouse_config

text \<open>\<open>configuration()\<close> of \<open>config/configuration.ts\<close>; \<open>env\<close> is \<open>process.env\<close>.\<close>

definition configuration :: "(string \<rightharpoonup> string) \<Rightarrow> configuration_t" where
  "configuration env =
     \<lparr> port = parseInt10 (str_or (env ''PORT'') ''3001''),
       frontendUrl = str_or (env ''FRONTEND_URL'') ''http://localhost:3000'',
       environment = str_or (env ''NODE_ENV'') ''development'',
       lighthouse =
         \<lparr> timeout = parseInt10 (str_or (env ''LIGHTHOUSE_TIMEOUT'') ''60000''),
           chromeFlags = str_or (env ''LIGHTHOUSE_CHROME_FLAGS'')
             ''--headless --no-sandbox --disable-gpu --disable-dev-shm-usage'' \<rparr> \<rparr>"


section \<open>Lighthouse handler\<close>

text \<open>
  The file system is a map from paths to file contents. \<open>child_process.exec\<close> runs a
  command that may change the files; it resolves with \<open>(stdout, stderr)\<close> or rejects
  with a message.
\<close>

type_synonym files = "string \<rightharpoonup> string"

text \<open>
  What \<open>runLighthouseAnalysis\<close> takes from outside: the successive readings of
  \<open>Date.now()\<close>, \<open>process.cwd()\<close>, the failure of \<open>fs.mkdirSync\<close> if the reports directory
  is missing and cannot be made, the behaviour of the commands, whether
  \<open>fs.unlinkSync\<close> fails, \<open>JSON.parse\<close> onto the report schema, and the reshaping of a
  valid report into the result fields other than the screenshots (the \<open>extract...\<close>
  helpers), which is not modelled and may throw.
\<close>

record 'p lighthouse_world =
  clock :: "nat \<Rightarrow> int"
  cwd :: string
  mkdirError :: "string option"
  exec :: "string \<Rightarrow> files \<Rightarrow> (string \<times> string) promise \<times> files"
  unlinkFails :: bool
  parseJSON :: "string \<Rightarrow> report promise"
  reshape :: "report \<Rightarrow> 'p promise"

record 'p lighthouse_result =
  reshaped :: 'p
  resultScreenshots :: "screenshot list"

text \<open>
  \<open>path.join(process.cwd(), 'reports', `lighthouse-report-${timestamp}.json`)\<close>, with
  the POSIX separator.
\<close>

definition reportPathOf :: "string \<Rightarrow> int \<Rightarrow> string" where
  "reportPathOf dir timestamp =
     dir @ ''/reports/lighthouse-report-'' @ showInt timestamp @ ''.json''"

text \<open>\<open>reportPath.replace(/"/g, '\\"')\<close>: a backslash before every double quote.\<close>

definition escapeQuotes :: "string \<Rightarrow> string" where
  "escapeQuotes s = concat (map (\<lambda>c. if c = CHR 0x22 then [CHR 0x5C, CHR 0x22] else [c]) s)"

definition quoted :: "string \<Rightarrow> string" where
  "quoted s = [CHR 0x22] @ s @ [CHR 0x22]"

text \<open>The command of line 54 and the alternative command of line 89.\<close>

definition lighthouseCommand :: "string \<Rightarrow> string \<Rightarrow> string" where
  "lighthouseCommand url reportPath =
     ''npx lighthouse '' @ quoted url
     @ '' --output=json --output-path='' @ quoted (escapeQuotes reportPath)
     @ '' --chrome-flags='' @ quoted ''--headless --no-sandbox --disable-gpu --disable-dev-shm-usage''
     @ '' --timeout=60000 --preset=desktop''
     @ '' --only-categories=performance,accessibility,best-practices,seo,pwa''
     @ '' --max-wait-for-load=30000 --throttling-method=devtools''"

definition alternativeCommand :: "string \<Rightarrow> string \<Rightarrow> string" where
  "alternativeCommand url reportPath =
     ''npx lighthouse '' @ quoted url
     @ '' --output=json --output-path='' @ quoted (escapeQuotes reportPath)
     @ '' --chrome-flags='' @ quoted ''--headless --no-sandbox''
     @ '' --timeout=30000 --preset=desktop''"

text \<open>
  One attempt: the command is run and the report file must exist afterwards; \<open>missing\<close> is
  the message thrown when it does not.
\<close>

definition attempt ::
  "'p lighthouse_world \<Rightarrow> string \<Rightarrow> string \<Rightarrow> string \<Rightarrow> files \<Rightarrow> unit promise \<times> files" where
  "attempt w command reportPath missing fs =
     (case exec w command fs of
        (Inl m, fs') \<Rightarrow> (Inl m, fs')
      | (Inr out, fs') \<Rightarrow> if fs' reportPath = None then (Inl missing, fs') else (Inr (), fs'))"

text \<open>
  The \<open>try\<close>/\<open>catch\<close> around the command (lines 58 to 111). A failure of the first
  attempt whose message contains \<open>timeout\<close> or \<open>ECONNREFUSED\<close>
  (\<open>wantsAlternative\<close>) leads to the alternative command; when that fails too the
  original error is thrown.
\<close>

definition wantsAlternative :: "string \<Rightarrow> bool" where
  "wantsAlternative m = (str_includes m ''timeout'' \<or> str_includes m ''ECONNREFUSED'')"

definition runCommands ::
  "'p lighthouse_world \<Rightarrow> string \<Rightarrow> string \<Rightarrow> files \<Rightarrow> unit promise \<times> ext_call list \<times> files" where
  "runCommands w url reportPath fs =
     (let command = lighthouseCommand url reportPath in
      case attempt w command reportPath ''Lighthouse report file was not created'' fs of
        (Inr u, fs1) \<Rightarrow> (Inr (), [Exec command], fs1)
      | (Inl m, fs1) \<Rightarrow>
          if wantsAlternative m
          then (let alternative = alternativeCommand url reportPath in
                case attempt w alternative reportPath
                       ''Alternative command also failed to create report file'' fs1 of
                  (Inr u, fs2) \<Rightarrow> (Inr (), [Exec command, Exec alternative], fs2)
                | (Inl altError, fs2) \<Rightarrow> (Inl m, [Exec command, Exec alternative], fs2))
          else if str_includes m ''ENOENT''
          then (Inl ''Lighthouse CLI not found. Please ensure lighthouse is installed: npm install -g lighthouse'',
                [Exec command], fs1)
          else (Inl (''Lighthouse execution failed: '' @ m), [Exec command], fs1))"

text \<open>\<open>JSON.parse(fs.readFileSync(reportPath, 'utf8'))\<close>.\<close>

definition readReport :: "'p lighthouse_world \<Rightarrow> string \<Rightarrow> files \<Rightarrow> report promise" where
  "readReport w reportPath fs =
     (case fs reportPath of
        None \<Rightarrow> Inl (''ENOENT: no such file or directory, open '' @ reportPath)
      | Some content \<Rightarrow> parseJSON w content)"

text \<open>
  The checks of lines 128 to 178 on the parsed report. \<open>Inr (Some message)\<close> is an early
  \<open>return\<close> of an error body, \<open>Inr None\<close> a report that passes, and \<open>Inl\<close> the \<open>TypeError\<close>
  of \<open>screenshotData.includes\<close> on data that is not a string.
\<close>

definition hasAnyValidData :: "(string \<times> rat option option) list \<Rightarrow> bool" where
  "hasAnyValidData cats =
     list_ex (\<lambda>cat. case cat of None \<Rightarrow> False | Some score \<Rightarrow> score \<noteq> None) (map snd cats)"

definition showsChromeError :: "string \<Rightarrow> bool" where
  "showsChromeError screenshotData =
     (str_includes screenshotData ''chrome-error://''
      \<or> str_includes screenshotData ''ERR_''
      \<or> str_includes screenshotData ''This site can't be reached'')"

definition reportProblem :: "report \<Rightarrow> string option promise" where
  "reportProblem reportData =
     (case runtimeError reportData of
        Some m \<Rightarrow>
          Inr (Some (str_or m ''Failed to analyze website. The site may be down or inaccessible.''))
      | None \<Rightarrow>
     (case (case finalScreenshotDetails reportData of
              None \<Rightarrow> Inr False
            | Some d \<Rightarrow> (case imgData d of
                           NoData \<Rightarrow> Inr False
                         | NonString \<Rightarrow> Inl ''screenshotData.includes is not a function''
                         | Str s \<Rightarrow> Inr (s \<noteq> [] \<and> showsChromeError s))) of
        Inl m \<Rightarrow> Inl m
      | Inr True \<Rightarrow>
          Inr (Some ''Website appears to be down or inaccessible. Chrome is showing an error page instead of the website content.'')
      | Inr False \<Rightarrow>
          if reportCategories reportData = None \<or> audits reportData = None
          then Inr (Some ''Analysis completed but returned invalid data structure.'')
          else if \<not> hasAnyValidData (the (reportCategories reportData))
          then Inr (Some ''Analysis completed but no valid scores were returned. The site may not be accessible.'')
          else Inr None))"

text \<open>The early error bodies and the \<open>catch\<close> block: \<open>{ url, error: true, message }\<close>.\<close>

definition lighthouseError :: "string \<Rightarrow> string \<Rightarrow> 'p body" where
  "lighthouseError url m =
     \<lparr> bodyUrl = url, bodySuccess = None, bodyError = Some True,
       bodyMessage = Some m, bodyTimestamp = None, bodyPayload = None \<rparr>"

definition lighthouseCatch :: "string \<Rightarrow> string \<Rightarrow> 'p body" where
  "lighthouseCatch url m =
     (let errorMessage =
        (if str_includes m ''ENOENT''
         then ''Lighthouse CLI not found. Please ensure lighthouse is installed.''
         else if str_includes m ''timeout''
         then ''Analysis timed out. The website may be too slow or unresponsive.''
         else if str_includes m ''ECONNREFUSED''
         then ''Cannot connect to the website. Please check the URL and try again.''
         else m)
      in lighthouseError url (''Failed to analyze website: '' @ errorMessage))"

text \<open>
  From the parsed report to the body (lines 128 to 263). \<open>now\<close> is the clock reading
  taken inside \<open>extractScreenshots\<close>.
\<close>

definition buildResult ::
  "'p lighthouse_world \<Rightarrow> string \<Rightarrow> int \<Rightarrow> report \<Rightarrow> 'p lighthouse_result body" where
  "buildResult w url now reportData =
     (case reportProblem reportData of
        Inl m \<Rightarrow> lighthouseCatch url m
      | Inr (Some message) \<Rightarrow> lighthouseError url message
      | Inr None \<Rightarrow>
          (case reshape w reportData of
             Inl m \<Rightarrow> lighthouseCatch url m
           | Inr extracted \<Rightarrow>
               \<lparr> bodyUrl = url, bodySuccess = None, bodyError = None, bodyMessage = None,
                 bodyTimestamp = None,
                 bodyPayload = Some \<lparr> reshaped = extracted,
                                      resultScreenshots = extractScreenshots now reportData \<rparr> \<rparr>))"

text \<open>
  After the commands: the report is parsed, then the file is unlinked (a failure of
  \<open>unlinkSync\<close> is caught and logged), then the body is built.
\<close>

definition finishAnalysis ::
  "'p lighthouse_world \<Rightarrow> string \<Rightarrow> string \<Rightarrow> files \<Rightarrow> 'p lighthouse_result body \<times> files" where
  "finishAnalysis w url reportPath fs =
     (case readReport w reportPath fs of
        Inl m \<Rightarrow> (lighthouseCatch url m, fs)
      | Inr reportData \<Rightarrow>
          (buildResult w url (clock w 1) reportData,
           if unlinkFails w then fs else fs(reportPath := None)))"

definition versionProbes :: "string list" where
  "versionProbes = [''npx lighthouse --version'', ''lighthouse --version'']"

text \<open>
  \<open>runLighthouseAnalysis\<close>: the body, the external invocations in order, and the files
  when the handler returns. Both version probes run whatever their outcome.
\<close>

definition runLighthouseAnalysis ::
  "'p lighthouse_world \<Rightarrow> files \<Rightarrow> string
     \<Rightarrow> 'p lighthouse_result body \<times> ext_call list \<times> files" where
  "runLighthouseAnalysis w fs0 url0 =
     (let url = normalizeUrl url0;
          reportPath = reportPathOf (cwd w) (clock w 0)
      in case mkdirError w of
           Some m \<Rightarrow> (lighthouseCatch url m, [], fs0)
         | None \<Rightarrow>
             (let fs1 = snd (exec w (versionProbes ! 0) fs0);
                  fs2 = snd (exec w (versionProbes ! 1) fs1);
                  probes = map Exec versionProbes
              in case runCommands w url reportPath fs2 of
                   (Inl m, calls, fs3) \<Rightarrow> (lighthouseCatch url m, probes @ calls, fs3)
                 | (Inr u, calls, fs3) \<Rightarrow>
                     (let finished = finishAnalysis w url reportPath fs3
                      in (fst finished, probes @ calls, snd finished))))"


section \<open>The routes of the controller\<close>















section \<open>The error policy\<close>







section \<open>Example worlds\<close>

text \<open>
  A machine on which Lighthouse runs and writes a report that is not JSON (it was cut
  short), and \<open>JSON.parse\<close> rejects it.
\<close>

definition examplePath :: string where
  "examplePath = ''/app/reports/lighthouse-report-1700000000000.json''"

definition truncatedReportWorld :: "unit lighthouse_world" where
  "truncatedReportWorld =
     \<lparr> clock = (\<lambda>k. if k = 0 then 1700000000000 else 1700000004000), cwd = ''/app'', mkdirError = None,
       exec = (\<lambda>command fs.
                 if str_includes command ''--output-path''
                 then (Inr ([], []), fs(examplePath \<mapsto> ''{ lighthouseVersion: ''))
                 else (Inr (''12.2.0'', []), fs)),
       unlinkFails = False,
       parseJSON = (\<lambda>content. Inl ''Unexpected end of JSON input''),
       reshape = (\<lambda>reportData. Inr ()) \<rparr>"

text \<open>
  A machine on which the first audit command times out and the alternative command
  writes a report that parses to a valid one.
\<close>

definition validReport :: report where
  "validReport =
     emptyReport\<lparr> reportCategories := Some [(''performance'', Some (Some (9 / 10)))],
                  audits := Some [] \<rparr>"

definition slowSiteWorld :: "unit lighthouse_world" where
  "slowSiteWorld =
     \<lparr> clock = (\<lambda>k. if k = 0 then 1700000000000 else 1700000004000), cwd = ''/app'', mkdirError = None,
       exec = (\<lambda>command fs.
                 if str_includes command ''--timeout=60000''
                 then (Inl ''Command failed: navigation timeout exceeded'', fs)
                 else if str_includes command ''--output-path''
                 then (Inr ([], []), fs(examplePath \<mapsto> ''{}''))
                 else (Inl ''lighthouse: not found'', fs)),
       unlinkFails = False,
       parseJSON = (\<lambda>content. Inr validReport),
       reshape = (\<lambda>reportData. Inr ()) \<rparr>"

text \<open>
  A CrUX API that has no page-level record (404) but answers the origin query, and one
  that is out of quota (429).
\<close>

definition pageUnknownWorld :: "(unit, unit) crux_world" where
  "pageUnknownWorld =
     \<lparr> urlOrigin = (\<lambda>u. Inr ''https://example.com''), apiKey = Some ''KEY'',
       fetch = (\<lambda>apiUrl q. case q of
                  ByUrl u \<Rightarrow> HttpError 404 ''Not Found'' ''chrome ux report data not found''
                | ByOrigin ori \<Rightarrow> Fetched ()),
       summarize = (\<lambda>r. Inr ()) \<rparr>"

definition quotaWorld :: "(unit, unit) crux_world" where
  "quotaWorld =
     \<lparr> urlOrigin = (\<lambda>u. Inr ''https://example.com''), apiKey = Some ''KEY'',
       fetch = (\<lambda>apiUrl q. HttpError 429 ''Too Many Requests'' []),
       summarize = (\<lambda>r. Inr ()) \<rparr>"

text \<open>A fingerprinting library that works, and a site that refuses the connection.\<close>

definition workingWappalyzer :: wappalyzer where
  "workingWappalyzer =
     \<lparr> loadError = None, initError = None, openError = (\<lambda>u. None),
       analyze = (\<lambda>u. Inr (Some exampleTechnologies)), destroyError = None \<rparr>"

definition refusingSite :: "string \<Rightarrow> http_outcome" where
  "refusingSite u = ErrorEvent ''connect ECONNREFUSED 93.184.216.34:443''"

definition answeringSite :: "string \<Rightarrow> http_outcome" where
  "answeringSite u =
     Responded \<lparr> statusCode = 200, resHeaders = exampleHeaders, resBody = friendlyPage \<rparr>"

text \<open>
  A site that answers with the page that has neither viewport tag nor media query, and
  a client that, like Node's, throws on a string that is no URL and finds the connection
  refused otherwise.
\<close>

definition plainSite :: "string \<Rightarrow> http_outcome" where
  "plainSite u = Responded \<lparr> statusCode = 200, resHeaders = Map.empty, resBody = plainPage \<rparr>"

definition strictClient :: "string \<Rightarrow> http_outcome" where
  "strictClient u =
     (if startsWith u ''http://'' \<or> startsWith u ''https://''
      then ErrorEvent ''connect ECONNREFUSED 93.184.216.34:443''
      else GetThrew ''Invalid URL'')"

text \<open>
  Two surroundings of the mobile-friendly code: one in which the remote API is reachable
  with a key and calls every page mobile-friendly, and one without key or network.
\<close>

definition apiWorld :: "(string \<Rightarrow> http_outcome) \<Rightarrow> unit mobile_world" where
  "apiWorld site =
     \<lparr> pageGet = site, mobileApiKey = Some ''KEY'',
       mobileApi = (\<lambda>apiUrl u. Fetched ()),
       readApiResult = (\<lambda>r. Inr initialMobileAnalysis) \<rparr>"

definition noApiWorld :: "(string \<Rightarrow> http_outcome) \<Rightarrow> unit mobile_world" where
  "noApiWorld site =
     \<lparr> pageGet = site, mobileApiKey = None,
       mobileApi = (\<lambda>apiUrl u. NetworkError ''fetch failed''),
       readApiResult = (\<lambda>r. Inl ''Cannot read properties of undefined'') \<rparr>"


section \<open>Security headers: the summary\<close>

lemma js_round_of_int_div:
  "0 < b \<Longrightarrow> js_round (of_int a / of_int b) = (2 * a + b) div (2 * b)"
proof -
  assume b: "0 < b"
  have "(of_int a / of_int b + 1 / 2 :: rat) = of_int (2 * a + b) / of_int (2 * b)"
    using b by (simp add: field_simps)
  then show ?thesis
    unfolding js_round_def by (simp only: floor_divide_of_int_eq)
qed

lemma checkHeader_recommendation:
  "\<not> present (checkHeader headers l c d r e) \<Longrightarrow> recommendation (checkHeader headers l c d r e) = recommendation e"
  by (simp add: checkHeader_def split: if_splits)

lemma checkHeader_present:
  "\<not> present e \<Longrightarrow> present (checkHeader headers l c d r e) = (truthy_str (headers l) \<or> truthy_str (headers c))"
  by (simp add: checkHeader_def or_else_def)

lemma checked_fields:
  "hsts (checkedAnalysis headers isHttps) = checkHeader headers
      ''strict-transport-security'' ''Strict-Transport-Security''
      ''HSTS header is configured'' ''HSTS is properly configured''
      (hsts (initialAnalysis isHttps))"
  "csp (checkedAnalysis headers isHttps) = checkHeader headers
      ''content-security-policy'' ''Content-Security-Policy''
      ''CSP header is configured'' ''CSP is properly configured''
      (csp (initialAnalysis isHttps))"
  "xFrameOptions (checkedAnalysis headers isHttps) = checkHeader headers
      ''x-frame-options'' ''X-Frame-Options''
      ''X-Frame-Options header is configured'' ''X-Frame-Options is properly configured''
      (xFrameOptions (initialAnalysis isHttps))"
  "xContentTypeOptions (checkedAnalysis headers isHttps) = checkHeader headers
      ''x-content-type-options'' ''X-Content-Type-Options''
      ''X-Content-Type-Options header is configured''
      ''X-Content-Type-Options is properly configured''
      (xContentTypeOptions (initialAnalysis isHttps))"
  "referrerPolicy (checkedAnalysis headers isHttps) = checkHeader headers
      ''referrer-policy'' ''Referrer-Policy''
      ''Referrer-Policy header is configured'' ''Referrer-Policy is properly configured''
      (referrerPolicy (initialAnalysis isHttps))"
  "permissionsPolicy (checkedAnalysis headers isHttps) = checkHeader headers
      ''permissions-policy'' ''Permissions-Policy''
      ''Permissions-Policy header is configured''
      ''Permissions-Policy is properly configured''
      (permissionsPolicy (initialAnalysis isHttps))"
  by (simp_all add: checkedAnalysis_def Let_def)

lemma initial_fields:
  "\<not> present (hsts (initialAnalysis isHttps))"
  "recommendation (hsts (initialAnalysis isHttps)) = snd (snd (trackedHeaders ! 0))"
  "\<not> present (csp (initialAnalysis isHttps))"
  "recommendation (csp (initialAnalysis isHttps)) = snd (snd (trackedHeaders ! 1))"
  "\<not> present (xFrameOptions (initialAnalysis isHttps))"
  "recommendation (xFrameOptions (initialAnalysis isHttps)) = snd (snd (trackedHeaders ! 2))"
  "\<not> present (xContentTypeOptions (initialAnalysis isHttps))"
  "recommendation (xContentTypeOptions (initialAnalysis isHttps)) = snd (snd (trackedHeaders ! 3))"
  "\<not> present (referrerPolicy (initialAnalysis isHttps))"
  "recommendation (referrerPolicy (initialAnalysis isHttps)) = snd (snd (trackedHeaders ! 4))"
  "\<not> present (permissionsPolicy (initialAnalysis isHttps))"
  "recommendation (permissionsPolicy (initialAnalysis isHttps)) = snd (snd (trackedHeaders ! 5))"
  by (simp_all add: initialAnalysis_def trackedHeaders_def)

lemma checked_present:
  "present (hsts (checkedAnalysis headers isHttps)) = isSet headers (trackedHeaders ! 0)"
  "present (csp (checkedAnalysis headers isHttps)) = isSet headers (trackedHeaders ! 1)"
  "present (xFrameOptions (checkedAnalysis headers isHttps)) = isSet headers (trackedHeaders ! 2)"
  "present (xContentTypeOptions (checkedAnalysis headers isHttps)) = isSet headers (trackedHeaders ! 3)"
  "present (referrerPolicy (checkedAnalysis headers isHttps)) = isSet headers (trackedHeaders ! 4)"
  "present (permissionsPolicy (checkedAnalysis headers isHttps)) = isSet headers (trackedHeaders ! 5)"
  by (simp_all add: checked_fields checkHeader_present initial_fields isSet_def trackedHeaders_def)

lemma checked_recommendation:
  "\<not> present (hsts (checkedAnalysis headers isHttps)) \<Longrightarrow>
     recommendation (hsts (checkedAnalysis headers isHttps)) = snd (snd (trackedHeaders ! 0))"
  "\<not> present (csp (checkedAnalysis headers isHttps)) \<Longrightarrow>
     recommendation (csp (checkedAnalysis headers isHttps)) = snd (snd (trackedHeaders ! 1))"
  "\<not> present (xFrameOptions (checkedAnalysis headers isHttps)) \<Longrightarrow>
     recommendation (xFrameOptions (checkedAnalysis headers isHttps)) = snd (snd (trackedHeaders ! 2))"
  "\<not> present (xContentTypeOptions (checkedAnalysis headers isHttps)) \<Longrightarrow>
     recommendation (xContentTypeOptions (checkedAnalysis headers isHttps)) = snd (snd (trackedHeaders ! 3))"
  "\<not> present (referrerPolicy (checkedAnalysis headers isHttps)) \<Longrightarrow>
     recommendation (referrerPolicy (checkedAnalysis headers isHttps)) = snd (snd (trackedHeaders ! 4))"
  "\<not> present (permissionsPolicy (checkedAnalysis headers isHttps)) \<Longrightarrow>
     recommendation (permissionsPolicy (checkedAnalysis headers isHttps)) = snd (snd (trackedHeaders ! 5))"
  by (simp_all add: checked_fields checkHeader_recommendation initial_fields)

lemma tracked_list:
  "trackedHeaders = [trackedHeaders ! 0, trackedHeaders ! 1, trackedHeaders ! 2,
     trackedHeaders ! 3, trackedHeaders ! 4, trackedHeaders ! 5]"
  by (simp add: trackedHeaders_def)

lemma presentHeaders_checked:
  "presentHeaders (checkedAnalysis headers isHttps) = length (filter (isSet headers) trackedHeaders)"
  by (subst tracked_list) (simp add: presentHeaders_def checked_present)

lemma generateRecommendations_checked:
  "generateRecommendations (checkedAnalysis headers isHttps)
     = map (\<lambda>h. snd (snd h)) (filter (\<lambda>h. \<not> isSet headers h) trackedHeaders)"
  by (subst tracked_list) (simp add: generateRecommendations_def checked_present checked_recommendation)

lemma length_filter_compl:
  "length (filter (\<lambda>x. \<not> P x) xs) = length xs - length (filter P xs)"
  using sum_length_filter_compl[of P xs] by simp

text \<open>
  C9, as amended. For every header map, \<open>summary.totalHeaders\<close> is the number of the six
  tracked headers that carry a non-empty value under their lower-case or canonical name,
  \<open>summary.securityScore\<close> is \<open>round(totalHeaders / 6 * 100)\<close>, and
  \<open>summary.recommendations\<close> holds, in the order of the table, exactly the
  recommendation of each tracked header that is not so set; its length is
  \<open>6 - totalHeaders\<close>.
\<close>

theorem securityHeaders_summary:
  "totalHeaders (summary (analyzeSecurityHeadersData headers isHttps))
     = length (filter (isSet headers) trackedHeaders)
   \<and> securityScore (summary (analyzeSecurityHeadersData headers isHttps))
     = js_round (of_nat (totalHeaders (summary (analyzeSecurityHeadersData headers isHttps))) / 6 * 100)
   \<and> recommendations (summary (analyzeSecurityHeadersData headers isHttps))
     = map (\<lambda>h. snd (snd h)) (filter (\<lambda>h. \<not> isSet headers h) trackedHeaders)
   \<and> length (recommendations (summary (analyzeSecurityHeadersData headers isHttps)))
     = 6 - totalHeaders (summary (analyzeSecurityHeadersData headers isHttps))"
proof -
  have len: "length trackedHeaders = 6" by (simp add: trackedHeaders_def)
  show ?thesis
    by (simp add: analyzeSecurityHeadersData_def Let_def presentHeaders_checked
          generateRecommendations_checked length_filter_compl len)
qed

text \<open>
  The summary on the example response: one header counts, the score is 17, and five
  recommendations are issued.
\<close>

theorem securityHeaders_summary_witness:
  "totalHeaders (summary (analyzeSecurityHeadersData exampleHeaders True)) = 1
   \<and> securityScore (summary (analyzeSecurityHeadersData exampleHeaders True)) = 17
   \<and> recommendations (summary (analyzeSecurityHeadersData exampleHeaders True))
     = [''Add HSTS header to prevent downgrade attacks'',
        ''Add CSP header to prevent XSS attacks'',
        ''Add X-Content-Type-Options to prevent MIME sniffing'',
        ''Add Referrer-Policy to protect sensitive referral data'',
        ''Add Permissions-Policy to restrict feature access'']"
  using securityHeaders_summary[of exampleHeaders True] js_round_of_int_div[of 6 100]
  by (simp add: trackedHeaders_def isSet_def exampleHeaders_def truthy_str_def)

text \<open>
  C9 as stated fails: on the example response two tracked headers are present in the
  map, yet \<open>totalHeaders\<close> is 1 and five recommendations are issued, because the empty
  \<open>Referrer-Policy\<close> value is falsy.
\<close>

theorem securityHeaders_present_counterexample:
  "length (filter (inMap exampleHeaders) trackedHeaders) = 2
   \<and> totalHeaders (summary (analyzeSecurityHeadersData exampleHeaders True)) = 1
   \<and> length (recommendations (summary (analyzeSecurityHeadersData exampleHeaders True))) = 5"
  by code_simp


section \<open>Mobile-friendly heuristic: verdict and issues\<close>

lemma checks_verdict [simp]:
  "verdict (checkViewport h a) = verdict a"
  "verdict (checkResponsive h a) = verdict a"
  "verdict (checkContentWidth h a) = verdict a"
  "verdict (checkTextSize h a) = verdict a"
  "verdict (checkTapTargets h a) = verdict a"
  "verdict (checkPlugins h a) = verdict a"
  by (simp_all add: checkViewport_def checkResponsive_def checkContentWidth_def
        checkTextSize_def checkTapTargets_def checkPlugins_def)

lemma addRecommendations_keeps [simp]:
  "verdict (addRecommendations a) = verdict a"
  "issues (addRecommendations a) = issues a"
  by (simp_all add: addRecommendations_def)

lemma setVerdict_issues [simp]: "issues (setVerdict a) = issues a"
  by (simp add: setVerdict_def)

lemma setVerdict_verdict:
  "verdict a = ''MOBILE_FRIENDLY'' \<Longrightarrow>
   verdict (setVerdict a) = (if issues a = [] then ''MOBILE_FRIENDLY'' else ''NOT_MOBILE_FRIENDLY'')"
  by (simp add: setVerdict_def)

lemma sniffPage_verdict:
  "verdict (sniffPage p) = (if issues (sniffPage p) = [] then ''MOBILE_FRIENDLY'' else ''NOT_MOBILE_FRIENDLY'')"
  by (simp add: sniffPage_def Let_def setVerdict_verdict initialMobileAnalysis_def)

text \<open>
  C10. For every fetched page the heuristic returns an analysis; its verdict is
  \<open>NOT_MOBILE_FRIENDLY\<close> if and only if its issues list is non-empty, and it is
  \<open>MOBILE_FRIENDLY\<close>, with an empty issues list, otherwise.
\<close>

theorem mobile_verdict_iff_issues:
  assumes "httpGet url = Responded res"
  shows "\<exists>a. fst (analyzeMobileFriendlyWithoutApi httpGet url) = Inr a
           \<and> (verdict a = ''NOT_MOBILE_FRIENDLY'' \<longleftrightarrow> issues a \<noteq> [])
           \<and> (verdict a \<noteq> ''NOT_MOBILE_FRIENDLY'' \<longrightarrow> verdict a = ''MOBILE_FRIENDLY'' \<and> issues a = [])"
  using assms
  by (simp add: analyzeMobileFriendlyWithoutApi_def getPageData_def sniffPage_verdict)

text \<open>The theorem on the two example pages: one is friendly, the other has three issues.\<close>

theorem mobile_verdict_iff_issues_witness:
  "(\<exists>a. fst (analyzeMobileFriendlyWithoutApi
              (\<lambda>u. Responded \<lparr> statusCode = 200, resHeaders = Map.empty, resBody = friendlyPage \<rparr>)
              ''https://example.com'') = Inr a
        \<and> verdict a = ''MOBILE_FRIENDLY'' \<and> issues a = [])
   \<and> (\<exists>a. fst (analyzeMobileFriendlyWithoutApi
              (\<lambda>u. Responded \<lparr> statusCode = 200, resHeaders = Map.empty, resBody = plainPage \<rparr>)
              ''https://example.com'') = Inr a
        \<and> verdict a = ''NOT_MOBILE_FRIENDLY''
        \<and> issues a = [''Viewport not set'', ''No responsive design detected'',
                        ''Text too small to read''])"
proof -
  let ?g1 = "\<lambda>u::string. Responded \<lparr> statusCode = 200, resHeaders = Map.empty, resBody = friendlyPage \<rparr>"
  let ?g2 = "\<lambda>u::string. Responded \<lparr> statusCode = 200, resHeaders = Map.empty, resBody = plainPage \<rparr>"
  have i1: "issues (sniffPage friendlyPage) = []"
    by code_simp
  have i2: "issues (sniffPage plainPage) = [''Viewport not set'', ''No responsive design detected'',
                        ''Text too small to read'']"
    by code_simp
  from mobile_verdict_iff_issues[of ?g1 "''https://example.com''"]
  obtain a1 where a1: "fst (analyzeMobileFriendlyWithoutApi ?g1 ''https://example.com'') = Inr a1"
    and v1: "verdict a1 = ''NOT_MOBILE_FRIENDLY'' \<longleftrightarrow> issues a1 \<noteq> []"
    and w1: "verdict a1 \<noteq> ''NOT_MOBILE_FRIENDLY'' \<longrightarrow> verdict a1 = ''MOBILE_FRIENDLY'' \<and> issues a1 = []"
    by blast
  from mobile_verdict_iff_issues[of ?g2 "''https://example.com''"]
  obtain a2 where a2: "fst (analyzeMobileFriendlyWithoutApi ?g2 ''https://example.com'') = Inr a2"
    and v2: "verdict a2 = ''NOT_MOBILE_FRIENDLY'' \<longleftrightarrow> issues a2 \<noteq> []"
    by blast
  have e1: "a1 = sniffPage friendlyPage"
    using a1 by (simp add: analyzeMobileFriendlyWithoutApi_def getPageData_def)
  have e2: "a2 = sniffPage plainPage"
    using a2 by (simp add: analyzeMobileFriendlyWithoutApi_def getPageData_def)
  have "verdict a1 = ''MOBILE_FRIENDLY'' \<and> issues a1 = []"
    using v1 w1 i1 e1 by simp
  moreover have "verdict a2 = ''NOT_MOBILE_FRIENDLY'' \<and> issues a2 = [''Viewport not set'',
       ''No responsive design detected'', ''Text too small to read'']"
    using v2 i2 e2 by simp
  ultimately show ?thesis using a1 a2 by blast
qed


section \<open>Technology categorisation: first matching bucket\<close>

lemma matches_simps:
  "matchesBucket Frontend t = isFrontendTech (toLowerCase (techName t)) (toLowerCase (techCategory t))"
  "matchesBucket Backend t = isBackendTech (toLowerCase (techName t)) (toLowerCase (techCategory t))"
  "matchesBucket Databases t = isDatabase (toLowerCase (techName t)) (toLowerCase (techCategory t))"
  "matchesBucket ProgrammingLanguages t = isProgrammingLanguage (toLowerCase (techName t)) (toLowerCase (techCategory t))"
  "matchesBucket Frameworks t = isFramework (toLowerCase (techName t)) (toLowerCase (techCategory t))"
  "matchesBucket Libraries t = isLibrary (toLowerCase (techName t)) (toLowerCase (techCategory t))"
  "matchesBucket Cms t = isCMS (toLowerCase (techName t)) (toLowerCase (techCategory t))"
  "matchesBucket Ecommerce t = isEcommerce (toLowerCase (techName t)) (toLowerCase (techCategory t))"
  "matchesBucket Analytics t = isAnalytics (toLowerCase (techName t)) (toLowerCase (techCategory t))"
  "matchesBucket WebServers t = isWebServer (toLowerCase (techName t)) (toLowerCase (techCategory t))"
  "matchesBucket Cdn t = isCDN (toLowerCase (techName t)) (toLowerCase (techCategory t))"
  "matchesBucket Hosting t = isHosting (toLowerCase (techName t)) (toLowerCase (techCategory t))"
  "matchesBucket CloudServices t = isCloudService (toLowerCase (techName t)) (toLowerCase (techCategory t))"
  "matchesBucket Security t = isSecurity (toLowerCase (techName t)) (toLowerCase (techCategory t))"
  "matchesBucket PaymentProcessors t = isPaymentProcessor (toLowerCase (techName t)) (toLowerCase (techCategory t))"
  "matchesBucket AdvertisingNetworks t = isAdvertisingNetwork (toLowerCase (techName t)) (toLowerCase (techCategory t))"
  "matchesBucket AbTesting t = isABTesting (toLowerCase (techName t)) (toLowerCase (techCategory t))"
  by (simp_all add: matchesBucket_def Let_def isFrontendTech_def isBackendTech_def isDatabase_def
      isProgrammingLanguage_def isFramework_def isLibrary_def isCMS_def isEcommerce_def
      isAnalytics_def isWebServer_def isCDN_def isHosting_def isCloudService_def isSecurity_def
      isPaymentProcessor_def isAdvertisingNetwork_def isABTesting_def)

lemma categorizeTechnology_step:
  "bucketContents b (categorizeTechnology tech cats)
     = bucketContents b cats @ (if placedIn b tech then [tech] else [])"
  by (cases b)
     (simp_all add: categorizeTechnology_def Let_def placedIn_def bucketOrder_def
        matches_simps[symmetric])

lemma bucketContents_empty: "bucketContents b emptyCategories = []"
  by (cases b) (simp_all add: emptyCategories_def)

lemma bucketContents_foldl:
  "bucketContents b (foldl (\<lambda>cats tech. categorizeTechnology (techInfoOf tech) cats) c techs)
     = bucketContents b c @ filter (placedIn b) (map techInfoOf techs)"
  by (induction techs arbitrary: c) (simp_all add: categorizeTechnology_step)

lemma find_first:
  "b \<in> set xs \<Longrightarrow> P b \<Longrightarrow> list_all (\<lambda>z. \<not> P z) (takeWhile (\<lambda>z. z \<noteq> b) xs)
   \<Longrightarrow> find P xs = Some b"
proof (induction xs)
  case Nil
  then show ?case by simp
next
  case (Cons a xs)
  show ?case
  proof (cases "a = b")
    case True
    then show ?thesis using Cons.prems(2) by simp
  next
    case False
    have na: "\<not> P a" using Cons.prems(3) False by simp
    have bin: "b \<in> set xs" using Cons.prems(1) False by simp
    have rest: "list_all (\<lambda>z. \<not> P z) (takeWhile (\<lambda>z. z \<noteq> b) xs)"
      using Cons.prems(3) False by simp
    have "find P xs = Some b" using Cons.IH[OF bin Cons.prems(2) rest] .
    then show ?thesis using na by simp
  qed
qed

lemma bucket_in_order: "b \<in> set bucketOrder"
  by (cases b) (simp_all add: bucketOrder_def)

lemma placedIn_find:
  "placedIn b t \<Longrightarrow> find (\<lambda>b'. matchesBucket b' t) bucketOrder = Some b"
  unfolding placedIn_def by (rule find_first[OF bucket_in_order]) simp_all

lemma placedIn_unique:
  assumes "placedIn b t" and "placedIn b' t"
  shows "b = b'"
  using placedIn_find[OF assms(1)] placedIn_find[OF assms(2)] by simp

text \<open>
  C7. Every bucket of the categorised result holds, in detection order, exactly the
  detected technologies placed in it: those whose lower-cased name or category contains
  a keyword of the bucket's table while no bucket earlier in the priority order matches.
  A technology is placed in at most one bucket.
\<close>

theorem categorize_first_matching_bucket:
  "bucketContents b (categorizeTechnologies (Some technologies))
     = filter (placedIn b) (map techInfoOf technologies)
   \<and> (placedIn b t \<longleftrightarrow>
        matchesBucket b t
        \<and> (\<forall>b' \<in> set (takeWhile (\<lambda>b'. b' \<noteq> b) bucketOrder). \<not> matchesBucket b' t))
   \<and> (placedIn b t \<and> placedIn b' t \<longrightarrow> b = b')"
  using placedIn_unique[of b t b']
  by (simp add: categorizeTechnologies_def bucketContents_foldl bucketContents_empty
        placedIn_def list_all_iff)

text \<open>
  On the three example detections: jQuery matches the frontend table first (it also
  matches the libraries table, which stays empty), nginx lands with the web servers,
  and the unknown technology lands nowhere.
\<close>

theorem categorize_first_matching_bucket_witness:
  "bucketContents Frontend (categorizeTechnologies (Some exampleTechnologies))
     = [techInfoOf (exampleTechnologies ! 0)]
   \<and> bucketContents Libraries (categorizeTechnologies (Some exampleTechnologies)) = []
   \<and> bucketContents WebServers (categorizeTechnologies (Some exampleTechnologies))
     = [techInfoOf (exampleTechnologies ! 1)]
   \<and> matchesBucket Libraries (techInfoOf (exampleTechnologies ! 0))
   \<and> placedIn Frontend (techInfoOf (exampleTechnologies ! 0))
   \<and> \<not> placedIn Libraries (techInfoOf (exampleTechnologies ! 0))"
proof -
  have f: "filter (placedIn Frontend) (map techInfoOf exampleTechnologies)
             = [techInfoOf (exampleTechnologies ! 0)]"
    by code_simp
  have l: "filter (placedIn Libraries) (map techInfoOf exampleTechnologies) = []"
    by code_simp
  have w: "filter (placedIn WebServers) (map techInfoOf exampleTechnologies)
             = [techInfoOf (exampleTechnologies ! 1)]"
    by code_simp
  have m: "matchesBucket Libraries (techInfoOf (exampleTechnologies ! 0))"
    by code_simp
  have p: "placedIn Frontend (techInfoOf (exampleTechnologies ! 0))"
    by code_simp
  have np: "\<not> placedIn Libraries (techInfoOf (exampleTechnologies ! 0))"
    using categorize_first_matching_bucket
            [of Frontend exampleTechnologies "techInfoOf (exampleTechnologies ! 0)" Libraries] p
    by auto
  show ?thesis
    using categorize_first_matching_bucket[of Frontend exampleTechnologies]
          categorize_first_matching_bucket[of Libraries exampleTechnologies]
          categorize_first_matching_bucket[of WebServers exampleTechnologies]
          f l w m p np
    by simp
qed


section \<open>Screenshot extraction and the clock\<close>

lemma fromFinal_without_final:
  "\<not> hasFinalScreenshot reportData \<Longrightarrow> fromFinal now reportData = []"
  by (auto simp: hasFinalScreenshot_def fromFinal_def split: option.splits)

lemma collectScreenshots_without_final:
  "\<not> hasFinalScreenshot reportData \<Longrightarrow>
   collectScreenshots now reportData = collectScreenshots now' reportData"
  by (simp add: collectScreenshots_def fromFinal_without_final)

text \<open>
  C4, as amended. \<open>extractScreenshots\<close> is a function of the report and of the clock
  reading it stamps on the final screenshot. For every report that holds no usable
  final screenshot the clock is not consulted: two runs on that report produce
  identical output whatever the time of each run.
\<close>

theorem extractScreenshots_deterministic_without_final:
  "\<not> hasFinalScreenshot reportData \<Longrightarrow>
   extractScreenshots now reportData = extractScreenshots now' reportData"
  using collectScreenshots_without_final[of reportData now now']
  by (simp add: extractScreenshots_def)

text \<open>The report with two timed screenshots, extracted one millisecond apart.\<close>

theorem extractScreenshots_deterministic_without_final_witness:
  "\<not> hasFinalScreenshot timedReport
   \<and> extractScreenshots 1700000000000 timedReport = extractScreenshots 1700000000001 timedReport
   \<and> map shotTimestamp (extractScreenshots 1700000000000 timedReport) = [1000, 2500]"
proof -
  have h: "\<not> hasFinalScreenshot timedReport"
    by code_simp
  have v: "map shotTimestamp (extractScreenshots 1700000000000 timedReport) = [1000, 2500]"
    by code_simp
  show ?thesis
    using h v
      extractScreenshots_deterministic_without_final[OF h, of 1700000000000 1700000000001]
    by simp
qed

text \<open>
  C4 as stated fails: on the report whose only image is the final screenshot, two runs
  one millisecond apart return different lists, since the timestamp of the final
  screenshot is the time of the run.
\<close>

theorem extractScreenshots_clock_counterexample:
  "extractScreenshots 1700000000000 finalOnlyReport
     \<noteq> extractScreenshots 1700000000001 finalOnlyReport
   \<and> map shotTimestamp (extractScreenshots 1700000000000 finalOnlyReport) = [1700000000000]
   \<and> map shotTimestamp (extractScreenshots 1700000000001 finalOnlyReport) = [1700000000001]"
  by code_simp


section \<open>Error bodies\<close>


lemma successBody_fields:
  "bodyPayload (successBody u stamp r) = Some r"
  "bodyUrl (successBody u stamp r) = u"
  "bodyError (successBody u stamp r) = None"
  by (simp_all add: successBody_def)



section \<open>The Lighthouse handler, path by path\<close>




lemma readReport_parsed:
  "readReport w p fs = Inr r \<Longrightarrow> \<exists>content. fs p = Some content \<and> parseJSON w content = Inr r"
  by (cases "fs p") (simp_all add: readReport_def)



lemma attempt_cases:
  "(\<exists>m. attempt w c p missing fs = (Inl m, snd (exec w c fs))
        \<and> (fst (exec w c fs) = Inl m \<or> (\<not> isl (fst (exec w c fs)) \<and> m = missing)))
   \<or> (attempt w c p missing fs = (Inr (), snd (exec w c fs))
       \<and> \<not> isl (fst (exec w c fs)) \<and> snd (exec w c fs) p \<noteq> None)"
  by (cases "exec w c fs"; cases "fst (exec w c fs)") (auto simp: attempt_def)

text \<open>The four ways through the \<open>try\<close>/\<open>catch\<close> around the commands.\<close>

lemma runCommands_cases:
  fixes w :: "'p lighthouse_world"
  defines "missing1 \<equiv> ''Lighthouse report file was not created''"
    and "missing2 \<equiv> ''Alternative command also failed to create report file''"
  shows
  "(\<exists>fs1. attempt w (lighthouseCommand u p) p missing1 fs = (Inr (), fs1)
      \<and> runCommands w u p fs = (Inr (), [Exec (lighthouseCommand u p)], fs1))
   \<or> (\<exists>m fs1 fs2. attempt w (lighthouseCommand u p) p missing1 fs = (Inl m, fs1)
      \<and> wantsAlternative m
      \<and> attempt w (alternativeCommand u p) p missing2 fs1 = (Inr (), fs2)
      \<and> runCommands w u p fs
          = (Inr (), [Exec (lighthouseCommand u p), Exec (alternativeCommand u p)], fs2))
   \<or> (\<exists>m m2 fs1 fs2. attempt w (lighthouseCommand u p) p missing1 fs = (Inl m, fs1)
      \<and> wantsAlternative m
      \<and> attempt w (alternativeCommand u p) p missing2 fs1 = (Inl m2, fs2)
      \<and> runCommands w u p fs
          = (Inl m, [Exec (lighthouseCommand u p), Exec (alternativeCommand u p)], fs2))
   \<or> (\<exists>m m' fs1. attempt w (lighthouseCommand u p) p missing1 fs = (Inl m, fs1)
      \<and> \<not> wantsAlternative m
      \<and> runCommands w u p fs = (Inl m', [Exec (lighthouseCommand u p)], fs1))"
proof -
  obtain r1 fs1 where a1: "attempt w (lighthouseCommand u p) p missing1 fs = (r1, fs1)"
    by (cases "attempt w (lighthouseCommand u p) p missing1 fs") blast
  obtain r2 fs2 where a2: "attempt w (alternativeCommand u p) p missing2 fs1 = (r2, fs2)"
    by (cases "attempt w (alternativeCommand u p) p missing2 fs1") blast
  show ?thesis
  proof (cases r1)
    case (Inr x)
    then show ?thesis using a1 by (simp add: runCommands_def Let_def missing1_def)
  next
    case (Inl m)
    show ?thesis
    proof (cases "wantsAlternative m")
      case False
      then show ?thesis using a1 Inl by (simp add: runCommands_def Let_def missing1_def)
    next
      case True
      then show ?thesis using a1 a2 Inl
        by (cases r2) (simp_all add: runCommands_def Let_def missing1_def missing2_def)
    qed
  qed
qed






text \<open>An attempt, in terms of what the command does.\<close>

lemma attempt_eq:
  "attempt w c p missing fs =
     (if \<not> isl (fst (exec w c fs)) \<and> snd (exec w c fs) p \<noteq> None then Inr ()
      else Inl (case fst (exec w c fs) of Inl m \<Rightarrow> m | Inr out \<Rightarrow> missing),
      snd (exec w c fs))"
  by (cases "exec w c fs"; cases "fst (exec w c fs)") (auto simp: attempt_def)

lemma runCommands_eq:
  "runCommands w u p fs =
     (let audit = exec w (lighthouseCommand u p) fs;
          auditOk = (\<not> isl (fst audit) \<and> snd audit p \<noteq> None);
          auditMessage = (case fst audit of Inl m \<Rightarrow> m
                          | Inr out \<Rightarrow> ''Lighthouse report file was not created'');
          fallback = exec w (alternativeCommand u p) (snd audit);
          fallbackOk = (\<not> isl (fst fallback) \<and> snd fallback p \<noteq> None)
      in if auditOk then (Inr (), [Exec (lighthouseCommand u p)], snd audit)
         else if wantsAlternative auditMessage
         then (if fallbackOk then Inr () else Inl auditMessage,
               [Exec (lighthouseCommand u p), Exec (alternativeCommand u p)], snd fallback)
         else (Inl (if str_includes auditMessage ''ENOENT''
                    then ''Lighthouse CLI not found. Please ensure lighthouse is installed: npm install -g lighthouse''
                    else ''Lighthouse execution failed: '' @ auditMessage),
               [Exec (lighthouseCommand u p)], snd audit))"
  by (simp add: runCommands_def attempt_eq Let_def)


lemma runLighthouseAnalysis_trace:
  "fst (snd (runLighthouseAnalysis w fs url))
     = (let u = normalizeUrl url;
            p = reportPathOf (cwd w) (clock w 0);
            fs2 = snd (exec w ''lighthouse --version'' (snd (exec w ''npx lighthouse --version'' fs)));
            audit = exec w (lighthouseCommand u p) fs2;
            auditOk = (\<not> isl (fst audit) \<and> snd audit p \<noteq> None);
            auditMessage = (case fst audit of Inl m \<Rightarrow> m
                            | Inr out \<Rightarrow> ''Lighthouse report file was not created'')
        in if mkdirError w \<noteq> None then []
           else [Exec ''npx lighthouse --version'', Exec ''lighthouse --version'',
                 Exec (lighthouseCommand u p)]
                @ (if \<not> auditOk \<and> wantsAlternative auditMessage
                   then [Exec (alternativeCommand u p)] else []))"
proof (cases "mkdirError w")
  case (Some m)
  then show ?thesis by (simp add: runLighthouseAnalysis_def Let_def)
next
  case None
  then show ?thesis
    by (simp add: runLighthouseAnalysis_def versionProbes_def runCommands_eq Let_def)
qed

section \<open>The other handlers, path by path\<close>




lemma analyzeSecurityHeaders_calls:
  "snd (analyzeSecurityHeaders httpGet stamp url) = [HttpGet (normalizeUrl url)]"
  by (cases "getSecurityHeaders httpGet (normalizeUrl url)")
     (simp_all add: analyzeSecurityHeaders_def Let_def)

lemma analyzeMobileFriendlyWithoutApi_calls:
  "snd (analyzeMobileFriendlyWithoutApi httpGet u) = [HttpGet u]"
  by (cases "getPageData httpGet u") (simp_all add: analyzeMobileFriendlyWithoutApi_def)


lemma analyzeMobileFriendly_eq:
  "analyzeMobileFriendly w stamp url =
     ((case fst (analyzeMobileFriendlyWithoutApi (pageGet w) (normalizeUrl url)) of
         Inr result \<Rightarrow> successBody (normalizeUrl url) stamp result
       | Inl m \<Rightarrow> failureBody (normalizeUrl url) ''Failed to analyze mobile-friendliness'' m stamp),
      [HttpGet (normalizeUrl url)])"
  using analyzeMobileFriendlyWithoutApi_calls[of "pageGet w" "normalizeUrl url"]
  by (cases "analyzeMobileFriendlyWithoutApi (pageGet w) (normalizeUrl url)";
      cases "fst (analyzeMobileFriendlyWithoutApi (pageGet w) (normalizeUrl url))")
     (simp_all add: analyzeMobileFriendly_def Let_def)



lemma tryTechStack_calls:
  "snd (tryTechStack wp u)
     = take (if loadError wp \<noteq> None then 0
             else if initError wp \<noteq> None then 1
             else if openError wp u \<noteq> None then 2
             else if isl (analyze wp u) then 3 else 4)
         [WappalyzerInit, WappalyzerOpen u, WappalyzerAnalyze, WappalyzerDestroy]"
  by (simp add: tryTechStack_def Let_def split: option.splits sum.splits)

lemma analyzeTechStack_eq:
  "analyzeTechStack wp stamp url =
     ((case fst (tryTechStack wp (normalizeUrl url)) of
         Inr categorizedResults \<Rightarrow> successBody (normalizeUrl url) stamp categorizedResults
       | Inl m \<Rightarrow> failureBody (normalizeUrl url) ''Failed to analyze tech stack'' m stamp),
      snd (tryTechStack wp (normalizeUrl url)))"
  by (cases "tryTechStack wp (normalizeUrl url)";
      cases "fst (tryTechStack wp (normalizeUrl url))")
     (simp_all add: analyzeTechStack_def Let_def)


lemma cruxFetch_cases:
  "(\<exists>r. fetch w a q = Fetched r \<and> cruxFetch w a q = Inr r)
   \<or> ((\<forall>r. fetch w a q \<noteq> Fetched r)
       \<and> (\<exists>m st. cruxFetch w a q = Inl (m, st)
             \<and> (st = Some 404 \<longrightarrow> (\<exists>txt d. fetch w a q = HttpError 404 txt d))))"
  by (cases "fetch w a q") (simp_all add: cruxFetch_def)

text \<open>The ways through the two queries.\<close>

lemma queryCrux_cases:
  "(\<exists>r. fetch w a (ByUrl ori) = Fetched r
       \<and> queryCrux w a ori = (summarize w r, [ApiPost a (ByUrl ori)]))
   \<or> ((\<forall>r. fetch w a (ByUrl ori) \<noteq> Fetched r)
       \<and> (\<forall>txt d. fetch w a (ByUrl ori) \<noteq> HttpError 404 txt d)
       \<and> (\<exists>m. queryCrux w a ori = (Inl m, [ApiPost a (ByUrl ori)])))
   \<or> ((\<exists>txt d. fetch w a (ByUrl ori) = HttpError 404 txt d)
       \<and> (\<exists>r. fetch w a (ByOrigin ori) = Fetched r
              \<and> queryCrux w a ori
                  = (summarize w r, [ApiPost a (ByUrl ori), ApiPost a (ByOrigin ori)])))
   \<or> ((\<exists>txt d. fetch w a (ByUrl ori) = HttpError 404 txt d)
       \<and> (\<forall>r. fetch w a (ByOrigin ori) \<noteq> Fetched r)
       \<and> (\<exists>m. queryCrux w a ori
                  = (Inl m, [ApiPost a (ByUrl ori), ApiPost a (ByOrigin ori)])))"
proof (cases "fetch w a (ByUrl ori)")
  case (HttpError st tx d)
  show ?thesis
  proof (cases "st = 404")
    case True
    then show ?thesis using HttpError
      by (cases "fetch w a (ByOrigin ori)") (simp_all add: queryCrux_def cruxFetch_def)
  next
    case False
    then show ?thesis using HttpError by (simp add: queryCrux_def cruxFetch_def)
  qed
qed (simp_all add: queryCrux_def cruxFetch_def)


lemma queryCrux_calls:
  "snd (queryCrux w a ori)
     = ApiPost a (ByUrl ori)
       # (case fetch w a (ByUrl ori) of
            HttpError st tx d \<Rightarrow> if st = 404 then [ApiPost a (ByOrigin ori)] else []
          | _ \<Rightarrow> [])"
  using queryCrux_cases[of w a ori]
  by (elim disjE exE conjE) (auto split: fetch_outcome.splits)

lemma analyzeCoreWebVitals_eq:
  "analyzeCoreWebVitals w stamp url =
     (case urlOrigin w (normalizeUrl url) of
        Inl m \<Rightarrow> (failureBody (normalizeUrl url) ''Failed to analyze Core Web Vitals'' m stamp, [])
      | Inr ori \<Rightarrow>
          ((case fst (runCoreWebVitalsAnalysis w ori) of
              Inr result \<Rightarrow> successBody (normalizeUrl url) stamp (ori, result)
            | Inl m \<Rightarrow> failureBody (normalizeUrl url) ''Failed to analyze Core Web Vitals'' m stamp),
           snd (runCoreWebVitalsAnalysis w ori)))"
proof (cases "urlOrigin w (normalizeUrl url)")
  case (Inl m)
  then show ?thesis by (simp add: analyzeCoreWebVitals_def Let_def)
next
  case (Inr ori)
  then show ?thesis
    by (cases "runCoreWebVitalsAnalysis w ori"; cases "fst (runCoreWebVitalsAnalysis w ori)")
       (simp_all add: analyzeCoreWebVitals_def Let_def)
qed



lemma analyzeCoreWebVitals_calls:
  "snd (analyzeCoreWebVitals w stamp url)
     = (case urlOrigin w (normalizeUrl url) of
          Inl e \<Rightarrow> []
        | Inr ori \<Rightarrow>
            (case apiKey w of
               None \<Rightarrow> []
             | Some key \<Rightarrow>
                 if key = [] then []
                 else ApiPost (cruxApiUrl key) (ByUrl ori)
                      # (case fetch w (cruxApiUrl key) (ByUrl ori) of
                           HttpError st tx d \<Rightarrow>
                             if st = 404 then [ApiPost (cruxApiUrl key) (ByOrigin ori)] else []
                         | _ \<Rightarrow> [])))"
  by (simp add: analyzeCoreWebVitals_eq runCoreWebVitalsAnalysis_def queryCrux_calls
        split: sum.splits option.splits)

lemma testWebsite_calls: "snd (testWebsite httpsGet url) = [HttpGet (urlToTest url)]"
  by (simp add: testWebsite_def Let_def)



section \<open>Failures become error bodies\<close>










section \<open>External invocations\<close>

lemma distinct_invocations:
  "distinct [Exec ''npx lighthouse --version'', Exec ''lighthouse --version'',
             Exec (lighthouseCommand u p), Exec (alternativeCommand u p)]"
  "distinct [Exec ''npx lighthouse --version'', Exec ''lighthouse --version'',
             Exec (lighthouseCommand u p)]"
  by (simp_all add: lighthouseCommand_def alternativeCommand_def quoted_def)

text \<open>
  C2, as amended. No handler repeats an external invocation, and the invocations of each
  request are exactly these. The Lighthouse handler invokes nothing when the reports
  directory cannot be made; otherwise it runs its two version probes and the audit
  command once each, and then the one alternative command, once, exactly when the audit
  attempt of this request (the command run on the files the probes left, and the test
  for the report file) failed with a message containing \<open>timeout\<close> or \<open>ECONNREFUSED\<close>.
  The Core Web Vitals handler invokes nothing when the URL has no origin or the API key
  is missing; otherwise it queries the CrUX API by page URL and, exactly when that query
  failed with status 404, once more by origin. The security-headers and mobile-friendly
  handlers and the website probe make one HTTP GET; the tech-stack handler calls
  \<open>init\<close>, \<open>open\<close>, \<open>analyze\<close> and \<open>destroy\<close> in this order, once each, up to the first
  one that fails.
\<close>

theorem external_invocations:
  fixes lw :: "'p lighthouse_world" and cw :: "('r, 'a) crux_world" and mw :: "'m mobile_world"
  shows
  "fst (snd (runLighthouseAnalysis lw fs url))
     = (let u = normalizeUrl url;
            p = reportPathOf (cwd lw) (clock lw 0);
            fs2 = snd (exec lw ''lighthouse --version'' (snd (exec lw ''npx lighthouse --version'' fs)));
            audit = exec lw (lighthouseCommand u p) fs2;
            auditOk = (\<not> isl (fst audit) \<and> snd audit p \<noteq> None);
            auditMessage = (case fst audit of Inl m \<Rightarrow> m
                            | Inr out \<Rightarrow> ''Lighthouse report file was not created'')
        in if mkdirError lw \<noteq> None then []
           else [Exec ''npx lighthouse --version'', Exec ''lighthouse --version'',
                 Exec (lighthouseCommand u p)]
                @ (if \<not> auditOk \<and> wantsAlternative auditMessage
                   then [Exec (alternativeCommand u p)] else []))
   \<and> distinct (fst (snd (runLighthouseAnalysis lw fs url)))
   \<and> snd (analyzeCoreWebVitals cw stamp url)
     = (case urlOrigin cw (normalizeUrl url) of
          Inl e \<Rightarrow> []
        | Inr ori \<Rightarrow>
            (case apiKey cw of
               None \<Rightarrow> []
             | Some key \<Rightarrow>
                 if key = [] then []
                 else ApiPost (cruxApiUrl key) (ByUrl ori)
                      # (case fetch cw (cruxApiUrl key) (ByUrl ori) of
                           HttpError st tx d \<Rightarrow>
                             if st = 404 then [ApiPost (cruxApiUrl key) (ByOrigin ori)] else []
                         | _ \<Rightarrow> [])))
   \<and> distinct (snd (analyzeCoreWebVitals cw stamp url))
   \<and> snd (analyzeSecurityHeaders httpGet stamp url) = [HttpGet (normalizeUrl url)]
   \<and> snd (analyzeMobileFriendly mw stamp url) = [HttpGet (normalizeUrl url)]
   \<and> snd (analyzeTechStack wp stamp url)
     = take (if loadError wp \<noteq> None then 0
             else if initError wp \<noteq> None then 1
             else if openError wp (normalizeUrl url) \<noteq> None then 2
             else if isl (analyze wp (normalizeUrl url)) then 3 else 4)
         [WappalyzerInit, WappalyzerOpen (normalizeUrl url), WappalyzerAnalyze, WappalyzerDestroy]
   \<and> distinct (snd (analyzeTechStack wp stamp url))
   \<and> snd (testWebsite httpGet url) = [HttpGet (urlToTest url)]"
proof -
  note l = runLighthouseAnalysis_trace[of lw fs url]
  have "fst (snd (runLighthouseAnalysis lw fs url)) = []
        \<or> fst (snd (runLighthouseAnalysis lw fs url))
             = [Exec ''npx lighthouse --version'', Exec ''lighthouse --version'',
                Exec (lighthouseCommand (normalizeUrl url) (reportPathOf (cwd lw) (clock lw 0)))]
        \<or> fst (snd (runLighthouseAnalysis lw fs url))
             = [Exec ''npx lighthouse --version'', Exec ''lighthouse --version'',
                Exec (lighthouseCommand (normalizeUrl url) (reportPathOf (cwd lw) (clock lw 0))),
                Exec (alternativeCommand (normalizeUrl url) (reportPathOf (cwd lw) (clock lw 0)))]"
    unfolding l Let_def by simp
  then have ld: "distinct (fst (snd (runLighthouseAnalysis lw fs url)))"
    by (elim disjE) (simp_all only: distinct_invocations distinct.simps(1))
  note c = analyzeCoreWebVitals_calls[of cw stamp url]
  have cd: "distinct (snd (analyzeCoreWebVitals cw stamp url))"
    unfolding c by (simp split: sum.splits option.splits fetch_outcome.splits)
  have t: "snd (analyzeTechStack wp stamp url)
     = take (if loadError wp \<noteq> None then 0
             else if initError wp \<noteq> None then 1
             else if openError wp (normalizeUrl url) \<noteq> None then 2
             else if isl (analyze wp (normalizeUrl url)) then 3 else 4)
         [WappalyzerInit, WappalyzerOpen (normalizeUrl url), WappalyzerAnalyze, WappalyzerDestroy]"
    by (simp only: analyzeTechStack_eq snd_conv tryTechStack_calls)
  have td: "distinct (snd (analyzeTechStack wp stamp url))"
    unfolding t by simp
  have m: "snd (analyzeMobileFriendly mw stamp url) = [HttpGet (normalizeUrl url)]"
    by (simp add: analyzeMobileFriendly_eq)
  from l ld c cd t td m analyzeSecurityHeaders_calls[of httpGet stamp url]
       testWebsite_calls[of httpGet url]
  show ?thesis by blast
qed

text \<open>
  The theorem on the slow site (the alternative command runs once, after the timeout of
  the audit command), on the machine that writes a truncated report (the audit command
  succeeds and no alternative runs), on the API out of quota (one query, no second one)
  and on the refusing site.
\<close>

theorem external_invocations_witness:
  "fst (snd (runLighthouseAnalysis slowSiteWorld Map.empty ''example.com''))
     = [Exec ''npx lighthouse --version'', Exec ''lighthouse --version'',
        Exec (lighthouseCommand ''https://example.com'' examplePath),
        Exec (alternativeCommand ''https://example.com'' examplePath)]
   \<and> distinct (fst (snd (runLighthouseAnalysis slowSiteWorld Map.empty ''example.com'')))
   \<and> fst (snd (runLighthouseAnalysis truncatedReportWorld Map.empty ''example.com''))
     = [Exec ''npx lighthouse --version'', Exec ''lighthouse --version'',
        Exec (lighthouseCommand ''https://example.com'' examplePath)]
   \<and> snd (analyzeCoreWebVitals quotaWorld ''2026-01-01T00:00:00.000Z'' ''example.com'')
     = [ApiPost (cruxApiUrl ''KEY'') (ByUrl ''https://example.com'')]
   \<and> snd (analyzeSecurityHeaders refusingSite ''2026-01-01T00:00:00.000Z'' ''example.com'')
     = [HttpGet ''https://example.com'']"
proof -
  have n: "normalizeUrl ''example.com'' = ''https://example.com''"
    by code_simp
  have r1: "(let u = normalizeUrl ''example.com'';
            p = reportPathOf (cwd slowSiteWorld) (clock slowSiteWorld 0);
            fs2 = snd (exec slowSiteWorld ''lighthouse --version''
                         (snd (exec slowSiteWorld ''npx lighthouse --version'' Map.empty)));
            audit = exec slowSiteWorld (lighthouseCommand u p) fs2;
            auditOk = (\<not> isl (fst audit) \<and> snd audit p \<noteq> None);
            auditMessage = (case fst audit of Inl m \<Rightarrow> m
                            | Inr out \<Rightarrow> ''Lighthouse report file was not created'')
        in if mkdirError slowSiteWorld \<noteq> None then []
           else [Exec ''npx lighthouse --version'', Exec ''lighthouse --version'',
                 Exec (lighthouseCommand u p)]
                @ (if \<not> auditOk \<and> wantsAlternative auditMessage
                   then [Exec (alternativeCommand u p)] else []))
     = [Exec ''npx lighthouse --version'', Exec ''lighthouse --version'',
        Exec (lighthouseCommand ''https://example.com'' examplePath),
        Exec (alternativeCommand ''https://example.com'' examplePath)]"
    by code_simp
  have r2: "(let u = normalizeUrl ''example.com'';
            p = reportPathOf (cwd truncatedReportWorld) (clock truncatedReportWorld 0);
            fs2 = snd (exec truncatedReportWorld ''lighthouse --version''
                         (snd (exec truncatedReportWorld ''npx lighthouse --version'' Map.empty)));
            audit = exec truncatedReportWorld (lighthouseCommand u p) fs2;
            auditOk = (\<not> isl (fst audit) \<and> snd audit p \<noteq> None);
            auditMessage = (case fst audit of Inl m \<Rightarrow> m
                            | Inr out \<Rightarrow> ''Lighthouse report file was not created'')
        in if mkdirError truncatedReportWorld \<noteq> None then []
           else [Exec ''npx lighthouse --version'', Exec ''lighthouse --version'',
                 Exec (lighthouseCommand u p)]
                @ (if \<not> auditOk \<and> wantsAlternative auditMessage
                   then [Exec (alternativeCommand u p)] else []))
     = [Exec ''npx lighthouse --version'', Exec ''lighthouse --version'',
        Exec (lighthouseCommand ''https://example.com'' examplePath)]"
    by code_simp
  have r3: "(case urlOrigin quotaWorld (normalizeUrl ''example.com'') of
          Inl e \<Rightarrow> []
        | Inr ori \<Rightarrow>
            (case apiKey quotaWorld of
               None \<Rightarrow> []
             | Some key \<Rightarrow>
                 if key = [] then []
                 else ApiPost (cruxApiUrl key) (ByUrl ori)
                      # (case fetch quotaWorld (cruxApiUrl key) (ByUrl ori) of
                           HttpError st tx d \<Rightarrow>
                             if st = 404 then [ApiPost (cruxApiUrl key) (ByOrigin ori)] else []
                         | _ \<Rightarrow> [])))
     = [ApiPost (cruxApiUrl ''KEY'') (ByUrl ''https://example.com'')]"
    by (simp add: quotaWorld_def)
  note T1 = external_invocations
         [of slowSiteWorld Map.empty "''example.com''" quotaWorld
             "''2026-01-01T00:00:00.000Z''" refusingSite "noApiWorld refusingSite"
             workingWappalyzer]
  note T2 = external_invocations
         [of truncatedReportWorld Map.empty "''example.com''" quotaWorld
             "''2026-01-01T00:00:00.000Z''" refusingSite "noApiWorld refusingSite"
             workingWappalyzer]
  from T1 r1 have w1: "fst (snd (runLighthouseAnalysis slowSiteWorld Map.empty ''example.com''))
     = [Exec ''npx lighthouse --version'', Exec ''lighthouse --version'',
        Exec (lighthouseCommand ''https://example.com'' examplePath),
        Exec (alternativeCommand ''https://example.com'' examplePath)]"
    by (elim conjE) (rule trans)
  from T1 have w2: "distinct (fst (snd (runLighthouseAnalysis slowSiteWorld Map.empty ''example.com'')))"
    by (elim conjE)
  from T2 r2 have w3: "fst (snd (runLighthouseAnalysis truncatedReportWorld Map.empty ''example.com''))
     = [Exec ''npx lighthouse --version'', Exec ''lighthouse --version'',
        Exec (lighthouseCommand ''https://example.com'' examplePath)]"
    by (elim conjE) (rule trans)
  from T1 r3 have w4: "snd (analyzeCoreWebVitals quotaWorld ''2026-01-01T00:00:00.000Z'' ''example.com'')
     = [ApiPost (cruxApiUrl ''KEY'') (ByUrl ''https://example.com'')]"
    by (elim conjE) (rule trans)
  from T1 have w5: "snd (analyzeSecurityHeaders refusingSite ''2026-01-01T00:00:00.000Z'' ''example.com'')
     = [HttpGet ''https://example.com'']"
    unfolding n by (elim conjE)
  from w1 w2 w3 w4 w5 show ?thesis by blast
qed

text \<open>
  C2 as stated fails: when the page query is answered with 404, the Core Web Vitals
  handler invokes the CrUX API a second time.
\<close>

theorem crux_requery_counterexample:
  "snd (analyzeCoreWebVitals pageUnknownWorld ''2026-01-01T00:00:00.000Z'' ''example.com'')
     = [ApiPost ''https://chromeuxreport.googleapis.com/v1/records:queryRecord?key=KEY''
          (ByUrl ''https://example.com''),
        ApiPost ''https://chromeuxreport.googleapis.com/v1/records:queryRecord?key=KEY''
          (ByOrigin ''https://example.com'')]
   \<and> fetch pageUnknownWorld
         ''https://chromeuxreport.googleapis.com/v1/records:queryRecord?key=KEY''
         (ByUrl ''https://example.com'')
       = HttpError 404 ''Not Found'' ''chrome ux report data not found''"
  by code_simp


section \<open>The probe's own URL test\<close>

lemma startsWith_http:
  "startsWith url ''http://'' \<or> startsWith url ''https://'' \<Longrightarrow> startsWith url ''http''"
  by (auto simp: startsWith_def prefix_def)

text \<open>
  The probe's target and the normalised URL agree except on the strings that begin with
  \<open>http\<close> but with neither \<open>http://\<close> nor \<open>https://\<close>.
\<close>

lemma urlToTest_vs_normalizeUrl:
  "urlToTest url = normalizeUrl url
     \<longleftrightarrow> \<not> (startsWith url ''http'' \<and> \<not> startsWith url ''http://''
                 \<and> \<not> startsWith url ''https://'')"
  using startsWith_http[of url] by (auto simp: urlToTest_def normalizeUrl_def)

text \<open>
  C6 at \<open>httpbin.org\<close>, a host name that begins with \<open>http\<close>: the service handlers turn
  it into \<open>https://httpbin.org\<close>, while \<open>testWebsite\<close> gives the bare string to the
  client and, when the client answers with an error event, returns it as the \<open>url\<close>
  field. A client that throws on a string that is no URL, as Node's does, is called with
  the bare string too, and the promise of the probe rejects.
\<close>

theorem probe_keeps_bare_host:
  "normalizeUrl ''httpbin.org'' = ''https://httpbin.org''
   \<and> urlToTest ''httpbin.org'' = ''httpbin.org''
   \<and> testWebsite refusingSite ''httpbin.org''
       = (Resolved \<lparr> probeUrl = ''httpbin.org'', probeStatusCode = None, accessible = False,
            probeMessage = ''Website is not accessible: connect ECONNREFUSED 93.184.216.34:443'' \<rparr>,
          [HttpGet ''httpbin.org''])
   \<and> testWebsite strictClient ''httpbin.org'' = (Rejected ''Invalid URL'', [HttpGet ''httpbin.org''])
   \<and> snd (analyzeSecurityHeaders strictClient ''2026-01-01T00:00:00.000Z'' ''httpbin.org'')
       = [HttpGet ''https://httpbin.org'']"
  by code_simp


section \<open>The report file and the configured timeout\<close>

lemma finishAnalysis_removes_report:
  "readReport w p fs = Inr r \<Longrightarrow> \<not> unlinkFails w \<Longrightarrow> snd (finishAnalysis w u p fs) p = None"
  by (simp add: finishAnalysis_def)

lemma finishAnalysis_keeps_unparsed_report:
  "readReport w p fs = Inl m \<Longrightarrow> snd (finishAnalysis w u p fs) = fs"
  by (simp add: finishAnalysis_def)

text \<open>
  C3 on the machine whose Lighthouse run leaves a truncated report: the handler returns
  an error body and the report file is still there.
\<close>

theorem report_file_left_after_parse_failure:
  "reportPathOf (cwd truncatedReportWorld) (clock truncatedReportWorld 0) = examplePath
   \<and> bodyError (fst (runLighthouseAnalysis truncatedReportWorld Map.empty ''example.com''))
       = Some True
   \<and> snd (snd (runLighthouseAnalysis truncatedReportWorld Map.empty ''example.com'')) examplePath
       = Some ''{ lighthouseVersion: ''"
  by code_simp

lemma str_includes_append: "str_includes ys k \<Longrightarrow> str_includes (xs @ ys) k"
  by (induction xs) simp_all

lemma lighthouseCommand_timeout: "str_includes (lighthouseCommand url p) ''--timeout=60000''"
proof -
  have "str_includes ('' --timeout=60000 --preset=desktop''
          @ '' --only-categories=performance,accessibility,best-practices,seo,pwa''
          @ '' --max-wait-for-load=30000 --throttling-method=devtools'') ''--timeout=60000''"
    by code_simp
  then show ?thesis
    unfolding lighthouseCommand_def
    by (rule str_includes_append[OF str_includes_append[OF str_includes_append
              [OF str_includes_append[OF str_includes_append[OF str_includes_append]]]]])
qed

text \<open>
  C5 with \<open>LIGHTHOUSE_TIMEOUT=120000\<close>: the configuration holds 120000, and the command
  the handler runs carries \<open>--timeout=60000\<close>, as the command does for every URL and
  report path.
\<close>

theorem configured_timeout_not_used:
  "timeout (lighthouse (configuration [''LIGHTHOUSE_TIMEOUT'' \<mapsto> ''120000''])) = IntValue 120000
   \<and> lighthouseCommand ''https://example.com'' examplePath
       = ''npx lighthouse \"https://example.com\" --output=json --output-path=\"/app/reports/lighthouse-report-1700000000000.json\" --chrome-flags=\"--headless --no-sandbox --disable-gpu --disable-dev-shm-usage\" --timeout=60000 --preset=desktop --only-categories=performance,accessibility,best-practices,seo,pwa --max-wait-for-load=30000 --throttling-method=devtools''
   \<and> fst (snd (runLighthouseAnalysis truncatedReportWorld Map.empty ''example.com''))
       = [Exec ''npx lighthouse --version'', Exec ''lighthouse --version'',
          Exec (lighthouseCommand ''https://example.com'' examplePath)]
   \<and> str_includes (lighthouseCommand url reportPath) ''--timeout=60000''"
proof -
  have "timeout (lighthouse (configuration [''LIGHTHOUSE_TIMEOUT'' \<mapsto> ''120000''])) = IntValue 120000
   \<and> lighthouseCommand ''https://example.com'' examplePath
       = ''npx lighthouse \"https://example.com\" --output=json --output-path=\"/app/reports/lighthouse-report-1700000000000.json\" --chrome-flags=\"--headless --no-sandbox --disable-gpu --disable-dev-shm-usage\" --timeout=60000 --preset=desktop --only-categories=performance,accessibility,best-practices,seo,pwa --max-wait-for-load=30000 --throttling-method=devtools''
   \<and> fst (snd (runLighthouseAnalysis truncatedReportWorld Map.empty ''example.com''))
       = [Exec ''npx lighthouse --version'', Exec ''lighthouse --version'',
          Exec (lighthouseCommand ''https://example.com'' examplePath)]"
    by code_simp
  then show ?thesis using lighthouseCommand_timeout[of url reportPath] by blast
qed


section \<open>The mobile-friendly handler and the remote API\<close>

lemma checks_issues:
  "issues (checkViewport h a)
     = issues a @ (if \<not> str_includes h ''<meta'' \<or> \<not> str_includes h ''name=\"viewport\"''
                      \<or> \<not> str_includes h ''width=device-width''
                   then [''Viewport not set''] else [])"
  "issues (checkResponsive h a)
     = issues a @ (if \<not> (str_includes h ''@media'' \<or> str_includes h ''max-width''
                          \<or> str_includes h ''min-width'')
                   then [''No responsive design detected''] else [])"
  "issues (checkContentWidth h a)
     = issues a @ (if str_includes h ''width='' \<and> str_includes h ''px''
                   then [''Content wider than screen''] else [])"
  "issues (checkTextSize h a)
     = issues a @ (if str_includes h ''font-size:'' \<and> matchFontSize h
                   then [''Text too small to read''] else [])"
  "issues (checkTapTargets h a)
     = issues a @ (if str_includes h ''padding:'' \<and> matchPaddingZero h
                   then [''Clickable elements too close''] else [])"
  "issues (checkPlugins h a)
     = issues a @ (if str_includes h ''<object'' \<or> str_includes h ''.swf''
                      \<or> str_includes h ''flash''
                   then [''Incompatible plugins detected''] else [])"
  by (simp_all add: checkViewport_def checkResponsive_def checkContentWidth_def
        checkTextSize_def checkTapTargets_def checkPlugins_def Let_def)

lemma sniffPage_issues:
  "issues (sniffPage page)
     = (let h = toLowerCase page in
          (if \<not> str_includes h ''<meta'' \<or> \<not> str_includes h ''name=\"viewport\"''
              \<or> \<not> str_includes h ''width=device-width''
           then [''Viewport not set''] else [])
        @ (if \<not> (str_includes h ''@media'' \<or> str_includes h ''max-width''
                  \<or> str_includes h ''min-width'')
           then [''No responsive design detected''] else [])
        @ (if str_includes h ''width='' \<and> str_includes h ''px''
           then [''Content wider than screen''] else [])
        @ (if str_includes h ''font-size:'' \<and> matchFontSize h
           then [''Text too small to read''] else [])
        @ (if str_includes h ''padding:'' \<and> matchPaddingZero h
           then [''Clickable elements too close''] else [])
        @ (if str_includes h ''<object'' \<or> str_includes h ''.swf'' \<or> str_includes h ''flash''
           then [''Incompatible plugins detected''] else []))"
  unfolding sniffPage_def Let_def
  by (simp only: addRecommendations_keeps setVerdict_issues checks_issues)
     (simp add: initialMobileAnalysis_def)

lemma analyzeMobileFriendly_page:
  "analyzeMobileFriendly w stamp url =
     ((case pageGet w (normalizeUrl url) of
         Responded res \<Rightarrow> successBody (normalizeUrl url) stamp (sniffPage (resBody res))
       | _ \<Rightarrow> failureBody (normalizeUrl url) ''Failed to analyze mobile-friendliness''
                ''Unable to analyze page content'' stamp),
      [HttpGet (normalizeUrl url)])"
  by (cases "pageGet w (normalizeUrl url)")
     (simp_all add: analyzeMobileFriendly_eq analyzeMobileFriendlyWithoutApi_def getPageData_def)

lemma runMobileFriendlyTest_calls:
  "mobileApiKey w = Some key \<Longrightarrow> key \<noteq> [] \<Longrightarrow>
   snd (runMobileFriendlyTest w u) = [MobileApiPost (mobileApiUrl key) u]"
  by (simp add: runMobileFriendlyTest_def Let_def)

text \<open>
  C8. For every input URL, the only external invocation of \<open>analyzeMobileFriendly\<close> is
  the GET of the page at the normalised URL: no request goes to the Mobile-Friendly Test
  API, whereas \<open>runMobileFriendlyTest\<close>, given a key, posts to it. The body returned does
  not depend on the API key, on the API or on anything else but the page: two
  surroundings with the same answer to the GET give the same body. When the page
  arrives, the issues are those the six checks find in its lower-cased HTML and the
  verdict follows from them; when it does not arrive, the body is the error body.
\<close>

theorem mobile_handler_uses_local_heuristic:
  fixes w :: "'r mobile_world" and w' :: "'s mobile_world"
  shows
  "snd (analyzeMobileFriendly w stamp url) = [HttpGet (normalizeUrl url)]
   \<and> (\<forall>apiUrl u. MobileApiPost apiUrl u \<notin> set (snd (analyzeMobileFriendly w stamp url)))
   \<and> (\<forall>key. mobileApiKey w = Some key \<and> key \<noteq> [] \<longrightarrow>
         snd (runMobileFriendlyTest w (normalizeUrl url))
           = [MobileApiPost (mobileApiUrl key) (normalizeUrl url)])
   \<and> (pageGet w' (normalizeUrl url) = pageGet w (normalizeUrl url) \<longrightarrow>
         analyzeMobileFriendly w' stamp url = analyzeMobileFriendly w stamp url)
   \<and> (\<forall>res. pageGet w (normalizeUrl url) = Responded res \<longrightarrow>
         (\<exists>a. bodyPayload (fst (analyzeMobileFriendly w stamp url)) = Some a
            \<and> issues a
              = (let h = toLowerCase (resBody res) in
                   (if \<not> str_includes h ''<meta'' \<or> \<not> str_includes h ''name=\"viewport\"''
                       \<or> \<not> str_includes h ''width=device-width''
                    then [''Viewport not set''] else [])
                 @ (if \<not> (str_includes h ''@media'' \<or> str_includes h ''max-width''
                           \<or> str_includes h ''min-width'')
                    then [''No responsive design detected''] else [])
                 @ (if str_includes h ''width='' \<and> str_includes h ''px''
                    then [''Content wider than screen''] else [])
                 @ (if str_includes h ''font-size:'' \<and> matchFontSize h
                    then [''Text too small to read''] else [])
                 @ (if str_includes h ''padding:'' \<and> matchPaddingZero h
                    then [''Clickable elements too close''] else [])
                 @ (if str_includes h ''<object'' \<or> str_includes h ''.swf''
                       \<or> str_includes h ''flash''
                    then [''Incompatible plugins detected''] else []))
            \<and> verdict a = (if issues a = [] then ''MOBILE_FRIENDLY''
                            else ''NOT_MOBILE_FRIENDLY'')))
   \<and> ((\<forall>res. pageGet w (normalizeUrl url) \<noteq> Responded res) \<longrightarrow>
         fst (analyzeMobileFriendly w stamp url)
           = failureBody (normalizeUrl url) ''Failed to analyze mobile-friendliness''
               ''Unable to analyze page content'' stamp)"
proof -
  have calls: "snd (analyzeMobileFriendly w stamp url) = [HttpGet (normalizeUrl url)]"
    by (simp add: analyzeMobileFriendly_page)
  then have noApi: "\<forall>apiUrl u. MobileApiPost apiUrl u \<notin> set (snd (analyzeMobileFriendly w stamp url))"
    by simp
  have remote: "\<forall>key. mobileApiKey w = Some key \<and> key \<noteq> [] \<longrightarrow>
         snd (runMobileFriendlyTest w (normalizeUrl url))
           = [MobileApiPost (mobileApiUrl key) (normalizeUrl url)]"
    using runMobileFriendlyTest_calls[of w _ "normalizeUrl url"] by blast
  have same: "pageGet w' (normalizeUrl url) = pageGet w (normalizeUrl url) \<longrightarrow>
         analyzeMobileFriendly w' stamp url = analyzeMobileFriendly w stamp url"
    by (simp add: analyzeMobileFriendly_page)
  have page: "\<forall>res. pageGet w (normalizeUrl url) = Responded res \<longrightarrow>
         (\<exists>a. bodyPayload (fst (analyzeMobileFriendly w stamp url)) = Some a
            \<and> issues a
              = (let h = toLowerCase (resBody res) in
                   (if \<not> str_includes h ''<meta'' \<or> \<not> str_includes h ''name=\"viewport\"''
                       \<or> \<not> str_includes h ''width=device-width''
                    then [''Viewport not set''] else [])
                 @ (if \<not> (str_includes h ''@media'' \<or> str_includes h ''max-width''
                           \<or> str_includes h ''min-width'')
                    then [''No responsive design detected''] else [])
                 @ (if str_includes h ''width='' \<and> str_includes h ''px''
                    then [''Content wider than screen''] else [])
                 @ (if str_includes h ''font-size:'' \<and> matchFontSize h
                    then [''Text too small to read''] else [])
                 @ (if str_includes h ''padding:'' \<and> matchPaddingZero h
                    then [''Clickable elements too close''] else [])
                 @ (if str_includes h ''<object'' \<or> str_includes h ''.swf''
                       \<or> str_includes h ''flash''
                    then [''Incompatible plugins detected''] else []))
            \<and> verdict a = (if issues a = [] then ''MOBILE_FRIENDLY''
                            else ''NOT_MOBILE_FRIENDLY''))"
  proof (intro allI impI)
    fix res
    assume r: "pageGet w (normalizeUrl url) = Responded res"
    have "bodyPayload (fst (analyzeMobileFriendly w stamp url)) = Some (sniffPage (resBody res))"
      using r by (simp add: analyzeMobileFriendly_page successBody_fields)
    then show "\<exists>a. bodyPayload (fst (analyzeMobileFriendly w stamp url)) = Some a
            \<and> issues a
              = (let h = toLowerCase (resBody res) in
                   (if \<not> str_includes h ''<meta'' \<or> \<not> str_includes h ''name=\"viewport\"''
                       \<or> \<not> str_includes h ''width=device-width''
                    then [''Viewport not set''] else [])
                 @ (if \<not> (str_includes h ''@media'' \<or> str_includes h ''max-width''
                           \<or> str_includes h ''min-width'')
                    then [''No responsive design detected''] else [])
                 @ (if str_includes h ''width='' \<and> str_includes h ''px''
                    then [''Content wider than screen''] else [])
                 @ (if str_includes h ''font-size:'' \<and> matchFontSize h
                    then [''Text too small to read''] else [])
                 @ (if str_includes h ''padding:'' \<and> matchPaddingZero h
                    then [''Clickable elements too close''] else [])
                 @ (if str_includes h ''<object'' \<or> str_includes h ''.swf''
                       \<or> str_includes h ''flash''
                    then [''Incompatible plugins detected''] else []))
            \<and> verdict a = (if issues a = [] then ''MOBILE_FRIENDLY''
                            else ''NOT_MOBILE_FRIENDLY'')"
      using sniffPage_issues[of "resBody res"] sniffPage_verdict[of "resBody res"] by blast
  qed
  have failed: "(\<forall>res. pageGet w (normalizeUrl url) \<noteq> Responded res) \<longrightarrow>
         fst (analyzeMobileFriendly w stamp url)
           = failureBody (normalizeUrl url) ''Failed to analyze mobile-friendliness''
               ''Unable to analyze page content'' stamp"
    by (cases "pageGet w (normalizeUrl url)") (simp_all add: analyzeMobileFriendly_page)
  from calls noApi remote same page failed show ?thesis by blast
qed

text \<open>
  The handler where the remote API is reachable and would call the page
  mobile-friendly: it fetches the page without viewport tag or media query, asks no API,
  and returns the verdict of the local checks, as it does without key or network; the
  private method would post to the API.
\<close>

theorem mobile_handler_uses_local_heuristic_witness:
  "snd (analyzeMobileFriendly (apiWorld plainSite) ''2026-01-01T00:00:00.000Z'' ''example.com'')
     = [HttpGet ''https://example.com'']
   \<and> runMobileFriendlyTest (apiWorld plainSite) ''https://example.com''
     = (Inr initialMobileAnalysis,
        [MobileApiPost ''https://searchconsole.googleapis.com/v1/urlTestingTools/mobileFriendlyTest:run?key=KEY''
           ''https://example.com''])
   \<and> analyzeMobileFriendly (noApiWorld plainSite) ''2026-01-01T00:00:00.000Z'' ''example.com''
     = analyzeMobileFriendly (apiWorld plainSite) ''2026-01-01T00:00:00.000Z'' ''example.com''
   \<and> (\<exists>a. bodyPayload (fst (analyzeMobileFriendly (apiWorld plainSite)
                               ''2026-01-01T00:00:00.000Z'' ''example.com'')) = Some a
          \<and> issues a = [''Viewport not set'', ''No responsive design detected'',
                          ''Text too small to read'']
          \<and> verdict a = ''NOT_MOBILE_FRIENDLY'')
   \<and> bodyError (fst (analyzeMobileFriendly (apiWorld refusingSite)
                        ''2026-01-01T00:00:00.000Z'' ''example.com'')) = Some True"
proof -
  have n: "normalizeUrl ''example.com'' = ''https://example.com''"
    by code_simp
  have k: "mobileApiKey (apiWorld plainSite) = Some ''KEY'' \<and> ''KEY'' \<noteq> []"
    by (simp add: apiWorld_def)
  have u: "mobileApiUrl ''KEY''
     = ''https://searchconsole.googleapis.com/v1/urlTestingTools/mobileFriendlyTest:run?key=KEY''"
    by code_simp
  have f: "fst (runMobileFriendlyTest (apiWorld plainSite) ''https://example.com'')
             = Inr initialMobileAnalysis"
    by (simp add: runMobileFriendlyTest_def apiWorld_def Let_def)
  have g: "pageGet (noApiWorld plainSite) ''https://example.com''
             = pageGet (apiWorld plainSite) ''https://example.com''"
    by (simp add: noApiWorld_def apiWorld_def)
  have r: "pageGet (apiWorld plainSite) ''https://example.com''
             = Responded \<lparr> statusCode = 200, resHeaders = Map.empty, resBody = plainPage \<rparr>"
    by (simp add: apiWorld_def plainSite_def)
  have i: "(let h = toLowerCase plainPage in
                   (if \<not> str_includes h ''<meta'' \<or> \<not> str_includes h ''name=\"viewport\"''
                       \<or> \<not> str_includes h ''width=device-width''
                    then [''Viewport not set''] else [])
                 @ (if \<not> (str_includes h ''@media'' \<or> str_includes h ''max-width''
                           \<or> str_includes h ''min-width'')
                    then [''No responsive design detected''] else [])
                 @ (if str_includes h ''width='' \<and> str_includes h ''px''
                    then [''Content wider than screen''] else [])
                 @ (if str_includes h ''font-size:'' \<and> matchFontSize h
                    then [''Text too small to read''] else [])
                 @ (if str_includes h ''padding:'' \<and> matchPaddingZero h
                    then [''Clickable elements too close''] else [])
                 @ (if str_includes h ''<object'' \<or> str_includes h ''.swf''
                       \<or> str_includes h ''flash''
                    then [''Incompatible plugins detected''] else []))
           = [''Viewport not set'', ''No responsive design detected'', ''Text too small to read'']"
    by code_simp
  have e: "\<forall>res. pageGet (apiWorld refusingSite) ''https://example.com'' \<noteq> Responded res"
    by (simp add: apiWorld_def refusingSite_def)
  note T = mobile_handler_uses_local_heuristic
             [of "apiWorld plainSite" "''2026-01-01T00:00:00.000Z''" "''example.com''"
                 "noApiWorld plainSite", unfolded n]
  note E = mobile_handler_uses_local_heuristic
             [of "apiWorld refusingSite" "''2026-01-01T00:00:00.000Z''" "''example.com''"
                 "apiWorld refusingSite", unfolded n]
  from T have w1: "snd (analyzeMobileFriendly (apiWorld plainSite) ''2026-01-01T00:00:00.000Z''
                          ''example.com'') = [HttpGet ''https://example.com'']"
    by blast
  from T k have "snd (runMobileFriendlyTest (apiWorld plainSite) ''https://example.com'')
                   = [MobileApiPost (mobileApiUrl ''KEY'') ''https://example.com'']"
    by blast
  with f u have w2: "runMobileFriendlyTest (apiWorld plainSite) ''https://example.com''
     = (Inr initialMobileAnalysis,
        [MobileApiPost ''https://searchconsole.googleapis.com/v1/urlTestingTools/mobileFriendlyTest:run?key=KEY''
           ''https://example.com''])"
    by (simp add: prod_eq_iff)
  from T g have w3: "analyzeMobileFriendly (noApiWorld plainSite) ''2026-01-01T00:00:00.000Z''
                       ''example.com''
     = analyzeMobileFriendly (apiWorld plainSite) ''2026-01-01T00:00:00.000Z'' ''example.com''"
    by blast
  from T r obtain a where a: "bodyPayload (fst (analyzeMobileFriendly (apiWorld plainSite)
                               ''2026-01-01T00:00:00.000Z'' ''example.com'')) = Some a"
    and ia: "issues a
              = (let h = toLowerCase (resBody \<lparr> statusCode = 200, resHeaders = Map.empty,
                                               resBody = plainPage \<rparr>) in
                   (if \<not> str_includes h ''<meta'' \<or> \<not> str_includes h ''name=\"viewport\"''
                       \<or> \<not> str_includes h ''width=device-width''
                    then [''Viewport not set''] else [])
                 @ (if \<not> (str_includes h ''@media'' \<or> str_includes h ''max-width''
                           \<or> str_includes h ''min-width'')
                    then [''No responsive design detected''] else [])
                 @ (if str_includes h ''width='' \<and> str_includes h ''px''
                    then [''Content wider than screen''] else [])
                 @ (if str_includes h ''font-size:'' \<and> matchFontSize h
                    then [''Text too small to read''] else [])
                 @ (if str_includes h ''padding:'' \<and> matchPaddingZero h
                    then [''Clickable elements too close''] else [])
                 @ (if str_includes h ''<object'' \<or> str_includes h ''.swf''
                       \<or> str_includes h ''flash''
                    then [''Incompatible plugins detected''] else []))"
    and va: "verdict a = (if issues a = [] then ''MOBILE_FRIENDLY'' else ''NOT_MOBILE_FRIENDLY'')"
    by blast
  have rb: "resBody \<lparr> statusCode = 200, resHeaders = Map.empty, resBody = plainPage \<rparr> = plainPage"
    by simp
  from ia have ia': "issues a = [''Viewport not set'', ''No responsive design detected'',
                          ''Text too small to read'']"
    unfolding rb i .
  with va have "verdict a = ''NOT_MOBILE_FRIENDLY''" by simp
  with a ia' have w4: "\<exists>a. bodyPayload (fst (analyzeMobileFriendly (apiWorld plainSite)
                               ''2026-01-01T00:00:00.000Z'' ''example.com'')) = Some a
          \<and> issues a = [''Viewport not set'', ''No responsive design detected'',
                          ''Text too small to read'']
          \<and> verdict a = ''NOT_MOBILE_FRIENDLY''"
    by blast
  from E e have "fst (analyzeMobileFriendly (apiWorld refusingSite)
                        ''2026-01-01T00:00:00.000Z'' ''example.com'')
           = failureBody ''https://example.com'' ''Failed to analyze mobile-friendliness''
               ''Unable to analyze page content'' ''2026-01-01T00:00:00.000Z''"
    by blast
  then have w5: "bodyError (fst (analyzeMobileFriendly (apiWorld refusingSite)
                        ''2026-01-01T00:00:00.000Z'' ''example.com'')) = Some True"
    by (simp add: failureBody_def)
  from w1 w2 w3 w4 w5 show ?thesis by blast
qed

end
